theory Spec2Isabelle
  imports Complex_Main
begin

section \<open>Values shared by the service and the routes\<close>

text \<open>
  A JavaScript error as the code inspects it: \<open>error.status\<close>, \<open>error.code\<close> and
  \<open>error.message\<close>; a property that is absent is \<open>None\<close>. \<open>new Error(m)\<close> carries a
  message only.
\<close>

record js_error =
  status :: "int option"
  code :: "string option"
  message :: "string option"

definition new_Error :: "string \<Rightarrow> js_error" where
  "new_Error m = \<lparr>status = None, code = None, message = Some m\<rparr>"

text \<open>
  \<open>ChatCompletionMessage\<close> (aiService.ts): a role-tagged text segment. The history
  collaborator returns objects of the same shape, \<open>{ role: string; content: string }\<close>.
\<close>

record ChatCompletionMessage =
  role :: string
  content :: string

text \<open>
  \<open>PageContext\<close> (aiService.ts): the named optional properties with their declared
  types, and the index signature \<open>[key: string]: any\<close> as the list \<open>custom\<close> of the
  remaining properties in the order \<open>Object.keys\<close> enumerates them. The values of the
  remaining properties are of an arbitrary type \<open>'j\<close>.
\<close>

record 'j PageContext =
  currentPage :: "string option"
  page :: "string option"
  route :: "string option"
  userRole :: "string option"
  recentActions :: "string list option"
  navigationHistory :: "string list option"
  timestamp :: "string option"
  custom :: "(string \<times> 'j) list"

text \<open>
  \<open>RetrievalResult\<close> (ragService.ts): \<open>title\<close>, \<open>content\<close>, \<open>relevanceScore\<close>,
  \<open>type?\<close>, \<open>href?\<close>; the fields carry the prefix \<open>doc_\<close> here. The citation
  record pushed onto \<open>sources\<close> has \<open>type\<close>, \<open>title\<close>, \<open>href\<close>, \<open>relevance\<close>
  (prefix \<open>src_\<close>).
\<close>

record RetrievalResult =
  doc_title :: string
  doc_content :: string
  doc_relevanceScore :: rat
  doc_type :: "string option"
  doc_href :: "string option"

record source =
  src_type :: string
  src_title :: string
  src_href :: "string option"
  src_relevance :: rat

text \<open>
  The functions of the JavaScript runtime that the code calls and that are not part of the
  repository: \<open>JSON.stringify\<close> on a page-context value, \<open>Number.toFixed(0)\<close>, and
  \<open>JSON.parse\<close> on the \<open>context\<close> query parameter (\<open>None\<close> when it throws).
\<close>

record 'j runtime =
  JSON_stringify :: "'j \<Rightarrow> string"
  toFixed0 :: "rat \<Rightarrow> string"
  JSON_parse :: "string \<Rightarrow> 'j PageContext option"

section \<open>Collaborators of the service\<close>

text \<open>
  \<open>RAGService.retrieveRelevantDocuments(query, nResults, minRelevanceScore)\<close> and
  \<open>ConversationHistory.getRecentMessages(conversationId, limit)\<close>: a call either throws
  (\<open>Inl\<close>) or returns (\<open>Inr\<close>).
\<close>

type_synonym RAGService = "string \<Rightarrow> nat \<Rightarrow> rat \<Rightarrow> js_error + RetrievalResult list"

type_synonym ConversationHistory = "string \<Rightarrow> nat \<Rightarrow> js_error + ChatCompletionMessage list"

text \<open>
  The request passed to \<open>openai.chat.completions.create\<close>. The call throws or returns a
  stream; the stream yields chunks and then ends or throws. A chunk is represented by
  \<open>chunk.choices[0]?.delta?.content\<close>, \<open>None\<close> when a link of the optional chain is
  missing. The stream of one completion is finite (the request caps it by \<open>max_tokens\<close>).
\<close>

record ChatRequest =
  req_model :: string
  req_messages :: "ChatCompletionMessage list"
  req_stream :: bool
  req_temperature :: rat
  req_max_tokens :: nat

type_synonym BackendStream = "string option list \<times> js_error option"

type_synonym OpenAI = "ChatRequest \<Rightarrow> js_error + BackendStream"

section \<open>AIService: configuration and construction\<close>

text \<open>\<open>AIServiceConfig\<close>: what the caller passes; every property is optional.\<close>

record AIServiceConfig =
  openaiApiKey :: "string option"
  model :: "string option"
  temperature :: "rat option"
  maxTokens :: "nat option"
  systemPrompt :: "string option"
  enableRAG :: "bool option"
  ragService :: "RAGService option"

text \<open>\<open>this.config\<close> after the constructor has merged the defaults with the caller's values.\<close>

record ResolvedConfig =
  cfg_openaiApiKey :: "string option"
  cfg_model :: string
  cfg_temperature :: rat
  cfg_maxTokens :: nat
  cfg_systemPrompt :: string
  cfg_enableRAG :: bool
  cfg_ragService :: "RAGService option"

record AIService =
  openai :: "OpenAI option"
  isConfigured :: bool
  config :: ResolvedConfig
  conversationHistory :: "ConversationHistory option"

definition DEFAULT_SYSTEM_PROMPT :: string where
  "DEFAULT_SYSTEM_PROMPT =
     ''You are a helpful AI assistant. You provide clear, accurate, and helpful responses to user questions.\<newline>''
   @ ''\<newline>''
   @ ''## Communication Style:\<newline>''
   @ ''- Professional but approachable\<newline>''
   @ ''- Action-oriented with practical guidance\<newline>''
   @ ''- Clear and concise explanations\<newline>''
   @ ''- Use bullet points for clarity when appropriate\<newline>''
   @ ''\<newline>''
   @ ''## Response Format:\<newline>''
   @ ''1. Brief summary answering the question\<newline>''
   @ ''2. Detailed explanation or steps\<newline>''
   @ ''3. Additional context or examples if helpful\<newline>''
   @ ''\<newline>''
   @ ''When uncertain:\<newline>''
   @ ''- Admit knowledge gaps honestly\<newline>''
   @ ''- Offer alternatives or related information\<newline>''
   @ ''- Never guess or make up information\<newline>''"

definition or_default :: "'a option \<Rightarrow> 'a \<Rightarrow> 'a" where
  "or_default v d = (case v of None \<Rightarrow> d | Some x \<Rightarrow> x)"

text \<open>
  The constructor. \<open>mk_client\<close> stands for \<open>new OpenAI({ apiKey })\<close>: the behaviour of
  the client created for a key. An option is absent (\<open>None\<close>) or has a value; a key passed
  with the value \<open>undefined\<close>, which the spread copies over the default, is not
  represented.
\<close>

definition new_AIService ::
  "(string \<Rightarrow> OpenAI) \<Rightarrow> AIServiceConfig \<Rightarrow> ConversationHistory option \<Rightarrow> AIService" where
  "new_AIService mk_client c history =
     (let cfg = \<lparr>cfg_openaiApiKey = openaiApiKey c,
                 cfg_model = or_default (model c) ''gpt-4o-mini'',
                 cfg_temperature = or_default (temperature c) (7 / 10),
                 cfg_maxTokens = or_default (maxTokens c) 1000,
                 cfg_systemPrompt = or_default (systemPrompt c) DEFAULT_SYSTEM_PROMPT,
                 cfg_enableRAG = or_default (enableRAG c) False,
                 cfg_ragService = ragService c\<rparr>
      in case cfg_openaiApiKey cfg of
           None \<Rightarrow>
             \<lparr>openai = None, isConfigured = False, config = cfg, conversationHistory = history\<rparr>
         | Some apiKey \<Rightarrow>
             if apiKey = '''' \<or> apiKey = ''sk-your-api-key-here''
             then \<lparr>openai = None, isConfigured = False, config = cfg,
                   conversationHistory = history\<rparr>
             else \<lparr>openai = Some (mk_client apiKey), isConfigured = True, config = cfg,
                   conversationHistory = history\<rparr>)"

definition isOpenAIConfigured :: "AIService \<Rightarrow> bool" where
  "isOpenAIConfigured svc = isConfigured svc"

section \<open>AIService.getPageContextPrompt\<close>

text \<open>A string-valued property is truthy when it is present and not empty.\<close>

definition truthy :: "string option \<Rightarrow> bool" where
  "truthy v = (case v of None \<Rightarrow> False | Some s \<Rightarrow> s \<noteq> [])"

text \<open>\<open>a || b\<close> on optional strings.\<close>

definition js_or :: "string option \<Rightarrow> string option \<Rightarrow> string option" where
  "js_or a b = (if truthy a then a else b)"

text \<open>\<open>Array.prototype.join\<close> on strings.\<close>

fun join :: "string \<Rightarrow> string list \<Rightarrow> string" where
  "join sep [] = []"
| "join sep [x] = x"
| "join sep (x # y # ys) = x @ sep @ join sep (y # ys)"

text \<open>
  The separator literal of \<open>navigationHistory.join(...)\<close> as it stands in the source file:
  a space, the code points U+00E2, U+2020, U+2019 in UTF-8, a space.
\<close>

definition recent_pages_separator :: string where
  "recent_pages_separator =
     [CHR '' '', CHR 0xC3, CHR 0xA2, CHR 0xE2, CHR 0x80, CHR 0xA0, CHR 0xE2, CHR 0x80, CHR 0x99,
      CHR '' '']"

definition present :: "string \<Rightarrow> 'a option \<Rightarrow> string list" where
  "present k v = (case v of None \<Rightarrow> [] | Some _ \<Rightarrow> [k])"

text \<open>\<open>Object.keys(pageContext)\<close>: only its length and the keys outside the named ones are used.\<close>

definition Object_keys :: "'j PageContext \<Rightarrow> string list" where
  "Object_keys pc =
     present ''currentPage'' (currentPage pc) @ present ''page'' (page pc)
     @ present ''route'' (route pc) @ present ''userRole'' (userRole pc)
     @ present ''recentActions'' (recentActions pc)
     @ present ''navigationHistory'' (navigationHistory pc)
     @ present ''timestamp'' (timestamp pc) @ map fst (custom pc)"

definition excluded_keys :: "string list" where
  "excluded_keys =
     [''currentPage'', ''page'', ''route'', ''userRole'', ''navigationHistory'',
      ''recentActions'', ''timestamp'']"

text \<open>
  The body of the last \<open>forEach\<close>: the named properties are all in the exclusion list, so
  only the entries of \<open>custom\<close> can pass the test.
\<close>

definition append_custom :: "('j \<Rightarrow> string) \<Rightarrow> string \<times> 'j \<Rightarrow> string \<Rightarrow> string" where
  "append_custom stringify kv contextText =
     (if fst kv \<notin> set excluded_keys
      then contextText @ ''- '' @ fst kv @ '': '' @ stringify (snd kv) @ ''\<newline>''
      else contextText)"

definition append_action :: "string \<Rightarrow> string \<Rightarrow> string" where
  "append_action action contextText = contextText @ ''  * '' @ action @ ''\<newline>''"

definition getPageContextPrompt :: "('j \<Rightarrow> string) \<Rightarrow> 'j PageContext \<Rightarrow> string" where
  "getPageContextPrompt stringify pageContext =
     (let contextText = ''Current Context:\<newline>'';
          currentPage' = js_or (js_or (currentPage pageContext) (page pageContext))
                               (route pageContext);
          contextText =
            (if truthy currentPage'
             then contextText @ ''- Page: '' @ or_default currentPage' [] @ ''\<newline>''
             else contextText);
          contextText =
            (if truthy (userRole pageContext)
             then contextText @ ''- User Role: '' @ or_default (userRole pageContext) []
                  @ ''\<newline>''
             else contextText);
          contextText =
            (case navigationHistory pageContext of
               None \<Rightarrow> contextText
             | Some nav \<Rightarrow>
                 if length nav > 0
                 then contextText @ ''- Recent Pages: '' @ join recent_pages_separator nav
                      @ ''\<newline>''
                 else contextText);
          contextText =
            (case recentActions pageContext of
               None \<Rightarrow> contextText
             | Some actions \<Rightarrow>
                 if length actions > 0
                 then fold append_action actions (contextText @ ''- Recent Actions:\<newline>'')
                 else contextText);
          contextText = fold (append_custom stringify) (custom pageContext) contextText
      in contextText
         @ ''\<newline>Based on this context, provide relevant and specific assistance.'')"

section \<open>AIService.buildContext\<close>

definition system_msg :: "string \<Rightarrow> ChatCompletionMessage" where
  "system_msg text = \<lparr>role = ''system'', content = text\<rparr>"

definition user_msg :: "string \<Rightarrow> ChatCompletionMessage" where
  "user_msg text = \<lparr>role = ''user'', content = text\<rparr>"

text \<open>The body of \<open>relevantDocs.forEach\<close>: it extends \<open>ragContext\<close> and pushes one citation.\<close>

definition rag_step ::
  "(rat \<Rightarrow> string) \<Rightarrow> RetrievalResult \<Rightarrow> string \<times> source list \<Rightarrow> string \<times> source list" where
  "rag_step fixed0 doc acc =
     (let ragContext = fst acc; sources = snd acc;
          ragContext = ragContext @ ''### '' @ doc_title doc @ ''\<newline>'';
          ragContext = ragContext @ doc_content doc @ ''\<newline>'';
          ragContext = ragContext @ ''*(Relevance: '' @ fixed0 (doc_relevanceScore doc * 100)
                       @ ''%)*\<newline>\<newline>''
      in (ragContext,
          sources @ [\<lparr>src_type = (if truthy (doc_type doc) then or_default (doc_type doc) []
                                   else ''knowledge-base''),
                      src_title = doc_title doc,
                      src_href = doc_href doc,
                      src_relevance = doc_relevanceScore doc\<rparr>]))"

text \<open>
  Step 3 of \<open>buildContext\<close>, the \<open>try\<close>/\<open>catch\<close> around retrieval: the segments to push
  and the citations.
\<close>

definition rag_part ::
  "'j runtime \<Rightarrow> AIService \<Rightarrow> string option \<Rightarrow> ChatCompletionMessage list \<times> source list" where
  "rag_part rt svc userMessage =
     (if truthy userMessage \<and> cfg_enableRAG (config svc)
      then case cfg_ragService (config svc) of
             None \<Rightarrow> ([], [])
           | Some rag \<Rightarrow>
               (case rag (or_default userMessage []) 3 (6 / 10) of
                  Inl error \<Rightarrow> ([], [])
                | Inr relevantDocs \<Rightarrow>
                    if length relevantDocs > 0
                    then let acc = fold (rag_step (toFixed0 rt)) relevantDocs
                                     (''**Relevant Information from Knowledge Base:**\<newline>\<newline>'', []);
                             ragContext = fst acc
                               @ ''\<newline>Use this information to provide accurate guidance. Cite sources when relevant.''
                         in ([system_msg ragContext], snd acc)
                    else ([], []))
      else ([], []))"

text \<open>Step 4, the loop over the history: only \<open>user\<close> and \<open>assistant\<close> messages are pushed.\<close>

fun push_history ::
  "ChatCompletionMessage list \<Rightarrow> ChatCompletionMessage list \<Rightarrow> ChatCompletionMessage list" where
  "push_history [] messages = messages"
| "push_history (msg # rest) messages =
     push_history rest
       (if role msg = ''user'' \<or> role msg = ''assistant''
        then messages @ [\<lparr>role = role msg, content = content msg\<rparr>]
        else messages)"

text \<open>
  \<open>buildContext(conversationId, pageContext?, userMessage?)\<close> returns the messages and the
  \<open>ragSources\<close> it attaches to them, or throws what the history collaborator throws.
\<close>

definition buildContext ::
  "'j runtime \<Rightarrow> AIService \<Rightarrow> string \<Rightarrow> 'j PageContext option \<Rightarrow> string option
   \<Rightarrow> js_error + (ChatCompletionMessage list \<times> source list)" where
  "buildContext rt svc cid pageContext userMessage =
     (let messages = [system_msg (cfg_systemPrompt (config svc))];
          messages =
            (case pageContext of
               None \<Rightarrow> messages
             | Some pc \<Rightarrow>
                 if length (Object_keys pc) > 0
                 then messages @ [system_msg (getPageContextPrompt (JSON_stringify rt) pc)]
                 else messages);
          rag = rag_part rt svc userMessage;
          messages = messages @ fst rag;
          sources = snd rag;
          current = (if truthy userMessage then [user_msg (or_default userMessage [])] else [])
      in case conversationHistory svc of
           None \<Rightarrow> Inr (messages @ current, sources)
         | Some recent \<Rightarrow>
             (case recent cid 10 of
                Inl error \<Rightarrow> Inl error
              | Inr history \<Rightarrow> Inr (push_history history messages @ current, sources)))"

section \<open>AIService.streamChatCompletion\<close>

text \<open>
  What the async generator yields: a text fragment or the trailing \<open>sources\<close> object. A
  run of a generator is the list of the items it yields, followed by its normal end
  (\<open>None\<close>) or by the error it throws.
\<close>

datatype stream_item = Text string | Sources "source list"

type_synonym generator_run = "stream_item list \<times> js_error option"

definition mockResponses :: "string list" where
  "mockResponses =
     [''I understand your question. '',
      ''Based on the current context, '',
      ''I can help you with that. '',
      ''\<newline>\<newline>Here are some key points:\<newline>'',
      ''1. This is a mock response for demonstration\<newline>'',
      ''2. Configure OpenAI API key for real responses\<newline>'',
      ''3. I'm ready to help once configured\<newline>\<newline>'',
      ''Would you like more information?'']"

definition mockStreamResponse :: "string \<Rightarrow> 'j PageContext option \<Rightarrow> generator_run" where
  "mockStreamResponse userMessage pageContext =
     (fold (\<lambda>chunk yielded. yielded @ [Text chunk]) mockResponses [], None)"

definition fallback_message :: string where
  "fallback_message =
     ''I apologize, but I was unable to generate a response. Please try rephrasing your question.''"

text \<open>
  The \<open>for await\<close> loop over the backend stream, on the state
  (items yielded so far, \<open>totalTokens\<close>, \<open>hasContent\<close>).
\<close>

fun consume ::
  "string option list \<Rightarrow> stream_item list \<times> nat \<times> bool \<Rightarrow> stream_item list \<times> nat \<times> bool" where
  "consume [] st = st"
| "consume (chunk # rest) (yielded, totalTokens, hasContent) =
     (let content = (if truthy chunk then or_default chunk [] else [])
      in if content \<noteq> []
         then consume rest (yielded @ [Text content], totalTokens + length content, True)
         else consume rest (yielded, totalTokens, hasContent))"

text \<open>The \<open>catch\<close> block: the error thrown in place of the one caught.\<close>

definition rate_limit_message :: string where
  "rate_limit_message =
     ''I'm receiving too many requests right now. Please wait a moment and try again.''"

definition auth_message :: string where
  "auth_message = ''API authentication failed. Please contact your administrator.''"

definition unavailable_message :: string where
  "unavailable_message =
     ''The AI service is temporarily unavailable. Please try again in a few moments.''"

definition quota_message :: string where
  "quota_message = ''API usage limit reached. Please contact your administrator.''"

definition timeout_message :: string where
  "timeout_message = ''Request timed out. Please check your connection and try again.''"

definition unknown_message :: "string option \<Rightarrow> string" where
  "unknown_message m =
     ''Unable to process your request: ''
     @ (if truthy m then or_default m [] else ''Unknown error'')
     @ ''. Please try again.''"

definition normalize_error :: "js_error \<Rightarrow> js_error" where
  "normalize_error error =
     (if status error = Some 429 then new_Error rate_limit_message
      else if status error = Some 401 then new_Error auth_message
      else if (case status error of None \<Rightarrow> False | Some s \<Rightarrow> s \<ge> 500)
        then new_Error unavailable_message
      else if code error = Some ''insufficient_quota'' then new_Error quota_message
      else if code error = Some ''ETIMEDOUT'' \<or> code error = Some ''ECONNABORTED''
        then new_Error timeout_message
      else new_Error (unknown_message (message error)))"

text \<open>The argument of \<open>this.openai.chat.completions.create\<close>.\<close>

definition completion_request :: "AIService \<Rightarrow> ChatCompletionMessage list \<Rightarrow> ChatRequest" where
  "completion_request svc messages =
     \<lparr>req_model = cfg_model (config svc), req_messages = messages, req_stream = True,
      req_temperature = cfg_temperature (config svc),
      req_max_tokens = cfg_maxTokens (config svc)\<rparr>"

text \<open>The \<open>try\<close> block of \<open>streamChatCompletion\<close>.\<close>

definition stream_try ::
  "'j runtime \<Rightarrow> AIService \<Rightarrow> string \<Rightarrow> string \<Rightarrow> 'j PageContext option \<Rightarrow> generator_run" where
  "stream_try rt svc cid userMessage pageContext =
     (if \<not> isConfigured svc then mockStreamResponse userMessage pageContext
      else case openai svc of
        None \<Rightarrow> mockStreamResponse userMessage pageContext
      | Some client \<Rightarrow>
          (case buildContext rt svc cid pageContext (Some userMessage) of
             Inl error \<Rightarrow> ([], Some error)
           | Inr (messages, ragSources) \<Rightarrow>
               (case client (completion_request svc messages) of
                  Inl error \<Rightarrow> ([], Some error)
                | Inr (chunks, failure) \<Rightarrow>
                    (case consume chunks ([], 0, False) of
                       (yielded, totalTokens, hasContent) \<Rightarrow>
                         (case failure of
                            Some error \<Rightarrow> (yielded, Some error)
                          | None \<Rightarrow>
                              (let yielded =
                                     (if \<not> hasContent then yielded @ [Text fallback_message]
                                      else yielded);
                                   yielded =
                                     (if length ragSources > 0
                                      then yielded @ [Sources ragSources] else yielded)
                               in (yielded, None)))))))"

definition streamChatCompletion ::
  "'j runtime \<Rightarrow> AIService \<Rightarrow> string \<Rightarrow> string \<Rightarrow> 'j PageContext option \<Rightarrow> generator_run" where
  "streamChatCompletion rt svc cid userMessage pageContext =
     (case stream_try rt svc cid userMessage pageContext of
        (yielded, None) \<Rightarrow> (yielded, None)
      | (yielded, Some error) \<Rightarrow> (yielded, Some (normalize_error error)))"

section \<open>The storage collaborator and the example storage\<close>

text \<open>
  A stored message as \<open>getMessage\<close> returns it (\<open>id\<close> is \<open>msg_id\<close> here; \<open>createdAt\<close> is
  never read). \<open>ConversationStorage\<close> (chatRoutes.ts) with the two methods the stream
  endpoint calls.
\<close>

record StoredMessage = ChatCompletionMessage +
  msg_id :: string
  conversationId :: string

record ConversationStorage =
  getMessage :: "string \<Rightarrow> js_error + StoredMessage option"
  getRecentMessages :: "string \<Rightarrow> nat \<Rightarrow> js_error + ChatCompletionMessage list"

text \<open>
  The in-memory storage of the Express example: \<open>messages\<close> is a \<open>Map\<close> from a
  conversation id to the array of its messages, in insertion order.
\<close>

type_synonym memory = "(string \<times> StoredMessage list) list"

text \<open>\<open>msgs.slice(-limit)\<close>; \<open>slice(-0)\<close> is \<open>slice(0)\<close>, the whole array.\<close>

definition slice_last :: "nat \<Rightarrow> 'a list \<Rightarrow> 'a list" where
  "slice_last limit msgs = (if limit = 0 then msgs else drop (length msgs - limit) msgs)"

definition memory_getRecentMessages ::
  "memory \<Rightarrow> string \<Rightarrow> nat \<Rightarrow> ChatCompletionMessage list" where
  "memory_getRecentMessages messages cid limit =
     (let msgs = (case map_of messages cid of None \<Rightarrow> [] | Some ms \<Rightarrow> ms)
      in map (\<lambda>m. \<lparr>role = role m, content = content m\<rparr>) (slice_last limit msgs))"

fun memory_getMessage :: "memory \<Rightarrow> string \<Rightarrow> StoredMessage option" where
  "memory_getMessage [] mid = None"
| "memory_getMessage ((cid, msgs) # rest) mid =
     (case find (\<lambda>m. msg_id m = mid) msgs of
        Some found \<Rightarrow> Some found
      | None \<Rightarrow> memory_getMessage rest mid)"

definition memory_storage :: "memory \<Rightarrow> ConversationStorage" where
  "memory_storage messages =
     \<lparr>getMessage = (\<lambda>mid. Inr (memory_getMessage messages mid)),
      getRecentMessages = (\<lambda>cid limit. Inr (memory_getRecentMessages messages cid limit))\<rparr>"

section \<open>The stream endpoint (GET /stream/:messageId)\<close>

text \<open>
  The object passed to \<open>JSON.stringify\<close> in one \<open>res.write\<close>: the wire record is
  \<open>data: <json>\<close> followed by an empty line.
\<close>

datatype wire_event =
  Chunk string
| SourcesEvent "source list"
| Done
| ErrorEvent "string option"

text \<open>
  What the handler does, in order: the calls on \<open>res\<close> and the pulls on the generator
  (one \<open>next()\<close> per iteration of \<open>for await\<close>, and the one that ends the loop).
  \<open>Json e\<close> is \<open>res.json({ error: e })\<close>. The methods of \<open>res\<close> do not throw: Node reports
  a write on a finished response or a closed socket through events.
\<close>

datatype action =
  Status nat
| Json string
| SetHeader string string
| FlushHeaders
| Pull
| Write wire_event
| End

definition sends_headers :: "action \<Rightarrow> bool" where
  "sends_headers a = (case a of FlushHeaders \<Rightarrow> True | Json _ \<Rightarrow> True | _ \<Rightarrow> False)"

text \<open>\<open>res.headersSent\<close> after the actions \<open>tr\<close>.\<close>

definition headersSent :: "action list \<Rightarrow> bool" where
  "headersSent tr = list_ex sends_headers tr"

definition empty_PageContext :: "'j PageContext" where
  "empty_PageContext =
     \<lparr>currentPage = None, page = None, route = None, userRole = None, recentActions = None,
      navigationHistory = None, timestamp = None, custom = []\<rparr>"

definition parse_context :: "'j runtime \<Rightarrow> string option \<Rightarrow> 'j PageContext" where
  "parse_context rt contextParam =
     (if truthy contextParam
      then (case JSON_parse rt (or_default contextParam []) of
              None \<Rightarrow> empty_PageContext
            | Some parsed \<Rightarrow> parsed)
      else empty_PageContext)"

text \<open>The body of the \<open>for await\<close> loop of the handler, for the items pulled.\<close>

fun drain :: "stream_item list \<Rightarrow> action list" where
  "drain [] = []"
| "drain (Text chunk # rest) = [Pull, Write (Chunk chunk)] @ drain rest"
| "drain (Sources s # rest) = [Pull, Write (SourcesEvent s)] @ drain rest"

text \<open>
  The inner \<open>try\<close> block: the actions performed and the error thrown, if any. The last
  pull either ends the loop or throws.
\<close>

definition inner_try :: "generator_run \<Rightarrow> action list \<times> js_error option" where
  "inner_try run =
     (case run of
        (items, None) \<Rightarrow> (drain items @ [Pull, Write Done, End], None)
      | (items, Some streamError) \<Rightarrow> (drain items @ [Pull], Some streamError))"

text \<open>The inner \<open>try\<close> with its \<open>catch\<close>.\<close>

definition inner_block :: "generator_run \<Rightarrow> action list" where
  "inner_block run =
     (case inner_try run of
        (tr, None) \<Rightarrow> tr
      | (tr, Some streamError) \<Rightarrow> tr @ [Write (ErrorEvent (message streamError)), End])"

definition sse_headers :: "action list" where
  "sse_headers =
     [SetHeader ''Content-Type'' ''text/event-stream'',
      SetHeader ''Cache-Control'' ''no-cache'',
      SetHeader ''Connection'' ''keep-alive'',
      FlushHeaders]"

text \<open>
  The first part of the outer \<open>try\<close> block, up to the two early returns: it throws what
  the storage throws, rejects with a structured response, or accepts with the conversation
  id and the content of the last user message.
\<close>

datatype validation = Rejected "action list" | Accepted string string

definition validate :: "ConversationStorage \<Rightarrow> string \<Rightarrow> js_error + validation" where
  "validate storage messageId =
     (case getMessage storage messageId of
        Inl error \<Rightarrow> Inl error
      | Inr None \<Rightarrow> Inr (Rejected [Status 404, Json ''Message not found''])
      | Inr (Some msg) \<Rightarrow>
          (case getRecentMessages storage (conversationId msg) 10 of
             Inl error \<Rightarrow> Inl error
           | Inr recentMessages \<Rightarrow>
               (case find (\<lambda>m. role m = ''user'') (rev recentMessages) of
                  None \<Rightarrow> Inr (Rejected [Status 400, Json ''No user message found''])
                | Some lastUserMessage \<Rightarrow>
                    Inr (Accepted (conversationId msg) (content lastUserMessage)))))"

text \<open>The outer \<open>try\<close> block: the actions performed and the error thrown, if any.\<close>

definition outer_try ::
  "'j runtime \<Rightarrow> ConversationStorage \<Rightarrow> AIService \<Rightarrow> string \<Rightarrow> 'j PageContext
   \<Rightarrow> action list \<times> js_error option" where
  "outer_try rt storage aiService messageId pageContext =
     (case validate storage messageId of
        Inl error \<Rightarrow> ([], Some error)
      | Inr (Rejected tr) \<Rightarrow> (tr, None)
      | Inr (Accepted cid lastUserContent) \<Rightarrow>
          (sse_headers
           @ inner_block (streamChatCompletion rt aiService cid lastUserContent
                            (Some pageContext)),
           None))"

text \<open>The handler: the outer \<open>try\<close> with its \<open>catch\<close>.\<close>

definition stream_endpoint ::
  "'j runtime \<Rightarrow> ConversationStorage \<Rightarrow> AIService \<Rightarrow> string \<Rightarrow> string option \<Rightarrow> action list" where
  "stream_endpoint rt storage aiService messageId contextParam =
     (let pageContext = parse_context rt contextParam
      in case outer_try rt storage aiService messageId pageContext of
           (tr, None) \<Rightarrow> tr
         | (tr, Some error) \<Rightarrow>
             if \<not> headersSent tr
             then tr @ [Status 500, Json ''Failed to stream response'']
             else tr @ [Write (ErrorEvent (message error)), End])"

text \<open>The records written on the channel by a run, in order.\<close>

fun written :: "action list \<Rightarrow> wire_event list" where
  "written [] = []"
| "written (Write w # tr) = w # written tr"
| "written (a # tr) = written tr"

section \<open>Notions of the specification\<close>

text \<open>The non-empty text fragments among the chunks of a backend stream, in order.\<close>

definition nonempty_fragments :: "string option list \<Rightarrow> string list" where
  "nonempty_fragments chunks = filter (\<lambda>s. s \<noteq> []) (map (\<lambda>c. or_default c []) chunks)"

text \<open>A history message that belongs to the conversation: its role is user or assistant.\<close>

definition from_conversation :: "'a ChatCompletionMessage_scheme \<Rightarrow> bool" where
  "from_conversation m = (role m = ''user'' \<or> role m = ''assistant'')"

text \<open>The optional page-context segment, the fixed segments, and the current user turn.\<close>

definition page_segment :: "'j runtime \<Rightarrow> 'j PageContext option \<Rightarrow> ChatCompletionMessage list" where
  "page_segment rt pageContext =
     (case pageContext of
        None \<Rightarrow> []
      | Some pc \<Rightarrow>
          if Object_keys pc = [] then []
          else [system_msg (getPageContextPrompt (JSON_stringify rt) pc)])"

definition fixed_segments ::
  "'j runtime \<Rightarrow> AIService \<Rightarrow> 'j PageContext option \<Rightarrow> string option
   \<Rightarrow> ChatCompletionMessage list" where
  "fixed_segments rt svc pageContext userMessage =
     system_msg (cfg_systemPrompt (config svc)) # page_segment rt pageContext
     @ fst (rag_part rt svc userMessage)"

definition current_turn :: "string option \<Rightarrow> ChatCompletionMessage list" where
  "current_turn userMessage =
     (case userMessage of None \<Rightarrow> [] | Some m \<Rightarrow> if m = [] then [] else [user_msg m])"

text \<open>What the history collaborator of a service returns for a conversation, if it returns.\<close>

definition history_of :: "AIService \<Rightarrow> string \<Rightarrow> ChatCompletionMessage list" where
  "history_of svc cid =
     (case conversationHistory svc of
        None \<Rightarrow> []
      | Some recent \<Rightarrow> (case recent cid 10 of Inl e \<Rightarrow> [] | Inr history \<Rightarrow> history))"

text \<open>The \<open>n\<close> most recent elements of a list kept oldest first, in the same order.\<close>

definition most_recent :: "nat \<Rightarrow> 'a list \<Rightarrow> 'a list" where
  "most_recent n xs = rev (take n (rev xs))"

text \<open>All the messages of a conversation in the example storage, and a message without its ids.\<close>

definition conversation_of :: "memory \<Rightarrow> string \<Rightarrow> StoredMessage list" where
  "conversation_of store cid = (case map_of store cid of None \<Rightarrow> [] | Some ms \<Rightarrow> ms)"

definition plain :: "StoredMessage \<Rightarrow> ChatCompletionMessage" where
  "plain m = \<lparr>role = role m, content = content m\<rparr>"

text \<open>The example storage as the history collaborator of a service, as the example wires it.\<close>

definition memory_history :: "memory \<Rightarrow> ConversationHistory" where
  "memory_history store = (\<lambda>c limit. Inr (memory_getRecentMessages store c limit))"

text \<open>
  The order of the records of a stream: any number of \<open>chunk\<close> records, then at most one
  \<open>sources\<close> record, then exactly one terminal record (\<open>done\<close> or \<open>error\<close>) and
  nothing after it. The recogniser drops the chunks, then one \<open>sources\<close> record, and
  checks that a single terminal record is left.
\<close>

fun after_chunks :: "wire_event list \<Rightarrow> wire_event list" where
  "after_chunks (Chunk c # ws) = after_chunks ws"
| "after_chunks ws = ws"

fun after_sources :: "wire_event list \<Rightarrow> wire_event list" where
  "after_sources (SourcesEvent s # ws) = ws"
| "after_sources ws = ws"

fun terminal_only :: "wire_event list \<Rightarrow> bool" where
  "terminal_only [Done] = True"
| "terminal_only [ErrorEvent m] = True"
| "terminal_only ws = False"

definition event_order_ok :: "wire_event list \<Rightarrow> bool" where
  "event_order_ok ws = terminal_only (after_sources (after_chunks ws))"

text \<open>Items of a generator run in order: text fragments, then at most one \<open>sources\<close> item.\<close>

fun texts_then_sources :: "stream_item list \<Rightarrow> bool" where
  "texts_then_sources [] = True"
| "texts_then_sources (Text t # rest) = texts_then_sources rest"
| "texts_then_sources [Sources s] = True"
| "texts_then_sources (Sources s # x # rest) = False"

text \<open>The record that the handler writes for an item.\<close>

fun encode :: "stream_item \<Rightarrow> wire_event" where
  "encode (Text t) = Chunk t"
| "encode (Sources s) = SourcesEvent s"

text \<open>
  The two error paths of the handler, read off the actions of a run: the structured JSON
  response of the outer \<open>catch\<close>, and an \<open>error\<close> record written on the channel.
\<close>

definition is_error_event :: "wire_event \<Rightarrow> bool" where
  "is_error_event w = (case w of ErrorEvent m \<Rightarrow> True | _ \<Rightarrow> False)"

definition error_events :: "action list \<Rightarrow> wire_event list" where
  "error_events tr = filter is_error_event (written tr)"

definition json_error_path :: "action list \<Rightarrow> bool" where
  "json_error_path tr = (Json ''Failed to stream response'' \<in> set tr)"

definition stream_error_path :: "action list \<Rightarrow> bool" where
  "stream_error_path tr = (error_events tr \<noteq> [])"

text \<open>
  The error raised during a run of the handler, if any: the one the storage throws during
  validation, or the one the generator throws while the handler drains it.
\<close>

definition raised_error ::
  "'j runtime \<Rightarrow> ConversationStorage \<Rightarrow> AIService \<Rightarrow> string \<Rightarrow> string option
   \<Rightarrow> js_error option" where
  "raised_error rt storage svc mid ctx =
     (case validate storage mid of
        Inl e \<Rightarrow> Some e
      | Inr (Rejected tr) \<Rightarrow> None
      | Inr (Accepted cid um) \<Rightarrow>
          snd (streamChatCompletion rt svc cid um (Some (parse_context rt ctx))))"

text \<open>The fixed messages of the taxonomy; the catch-all message embeds the message caught.\<close>

definition fixed_messages :: "string list" where
  "fixed_messages =
     [rate_limit_message, auth_message, unavailable_message, quota_message, timeout_message]"

text \<open>
  A failure of the backend: the call throws, or the stream throws after some chunks; with
  the non-empty fragments streamed before the failure and the error.
\<close>

definition backend_failure :: "js_error + BackendStream \<Rightarrow> (string list \<times> js_error) option" where
  "backend_failure r =
     (case r of
        Inl e \<Rightarrow> Some ([], e)
      | Inr (chunks, Some e) \<Rightarrow> Some (nonempty_fragments chunks, e)
      | Inr (chunks, None) \<Rightarrow> None)"

text \<open>
  The status of an error selects no kind: it is absent, or it is none of 429, 401 and the
  statuses from 500 on. The text inside the catch-all message: the message caught, or
  \<open>Unknown error\<close> when it is absent or empty.
\<close>

definition status_selects_nothing :: "js_error \<Rightarrow> bool" where
  "status_selects_nothing e =
     (case status e of None \<Rightarrow> True | Some s \<Rightarrow> s \<noteq> 429 \<and> s \<noteq> 401 \<and> s < 500)"

definition raw_or_unknown :: "string option \<Rightarrow> string" where
  "raw_or_unknown m =
     (case m of None \<Rightarrow> ''Unknown error'' | Some raw \<Rightarrow> if raw = [] then ''Unknown error'' else raw)"

text \<open>
  What the handler still does after the \<open>k\<close>-th write: the rest of its actions once the
  client has received \<open>k\<close> records, which is where a client that disconnects then stops
  listening.
\<close>

fun after_writes :: "nat \<Rightarrow> action list \<Rightarrow> action list" where
  "after_writes 0 tr = tr"
| "after_writes (Suc k) [] = []"
| "after_writes (Suc k) (Write w # tr) = after_writes k tr"
| "after_writes (Suc k) (a # tr) = after_writes (Suc k) tr"

text \<open>
  The text of the page-context segment, part by part: the first non-empty of
  \<open>currentPage\<close>, \<open>page\<close>, \<open>route\<close> under the label Page; a non-empty \<open>userRole\<close>
  under User Role; a non-empty \<open>navigationHistory\<close> joined by a separator \<open>sep\<close> under
  Recent Pages; a non-empty \<open>recentActions\<close> as a bulleted list; then one line
  \<open>- key: JSON\<close> for each custom key outside the exclusion list (which holds
  \<open>timestamp\<close> too).
\<close>

fun first_nonempty :: "string option list \<Rightarrow> string option" where
  "first_nonempty [] = None"
| "first_nonempty (v # vs) = (if truthy v then v else first_nonempty vs)"

definition labelled_line :: "string \<Rightarrow> string \<Rightarrow> string" where
  "labelled_line label v = ''- '' @ label @ '': '' @ v @ ''\<newline>''"

definition bullet_line :: "string \<Rightarrow> string" where
  "bullet_line action = ''  * '' @ action @ ''\<newline>''"

definition generic_lines :: "('j \<Rightarrow> string) \<Rightarrow> (string \<times> 'j) list \<Rightarrow> string" where
  "generic_lines stringify kvs =
     concat (map (\<lambda>kv. labelled_line (fst kv) (stringify (snd kv)))
               (filter (\<lambda>kv. fst kv \<notin> set excluded_keys) kvs))"

definition rendered_context ::
  "string \<Rightarrow> ('j \<Rightarrow> string) \<Rightarrow> 'j PageContext \<Rightarrow> string" where
  "rendered_context sep stringify pc =
     ''Current Context:\<newline>''
     @ (case first_nonempty [currentPage pc, page pc, route pc] of
          None \<Rightarrow> []
        | Some p \<Rightarrow> labelled_line ''Page'' p)
     @ (case userRole pc of
          None \<Rightarrow> []
        | Some r \<Rightarrow> if r = [] then [] else labelled_line ''User Role'' r)
     @ (case navigationHistory pc of
          None \<Rightarrow> []
        | Some nav \<Rightarrow>
            if nav = [] then [] else labelled_line ''Recent Pages'' (join sep nav))
     @ (case recentActions pc of
          None \<Rightarrow> []
        | Some actions \<Rightarrow>
            if actions = [] then []
            else ''- Recent Actions:\<newline>'' @ concat (map bullet_line actions))
     @ generic_lines stringify (custom pc)
     @ ''\<newline>Based on this context, provide relevant and specific assistance.''"

section \<open>Inputs of the concrete runs\<close>

text \<open>
  An instance of the runtime for the concrete runs below: the values of the custom
  page-context keys are given as their JSON text, the only percentage formatted is 80,
  and the \<open>context\<close> parameter of the runs is not valid JSON.
\<close>

definition example_runtime :: "string runtime" where
  "example_runtime =
     \<lparr>JSON_stringify = (\<lambda>v. v), toFixed0 = (\<lambda>r. ''80''), JSON_parse = (\<lambda>s. None)\<rparr>"

text \<open>
  A backend that streams the fragments \<open>Hel\<close> and \<open>lo\<close> between two empty chunks, and one
  that streams no text at all.
\<close>

definition hello_client :: OpenAI where
  "hello_client = (\<lambda>request. Inr ([None, Some ''Hel'', Some [], Some ''lo''], None))"

definition silent_client :: OpenAI where
  "silent_client = (\<lambda>request. Inr ([None, Some []], None))"

text \<open>A retrieval collaborator that throws, and one that finds nothing.\<close>

definition throwing_rag :: RAGService where
  "throwing_rag = (\<lambda>query nResults minRelevanceScore. Inl (new_Error ''Chroma is down''))"

definition empty_rag :: RAGService where
  "empty_rag = (\<lambda>query nResults minRelevanceScore. Inr [])"

definition no_options :: AIServiceConfig where
  "no_options =
     \<lparr>openaiApiKey = None, model = None, temperature = None, maxTokens = None,
      systemPrompt = None, enableRAG = None, ragService = None\<rparr>"

definition live_options :: AIServiceConfig where
  "live_options =
     no_options\<lparr>openaiApiKey := Some ''sk-live'', systemPrompt := Some ''Be brief.''\<rparr>"

text \<open>One conversation with a user message and the placeholder for the answer.\<close>

definition example_memory :: memory where
  "example_memory =
     [(''c1'',
       [\<lparr>role = ''user'', content = ''hi'', msg_id = ''m1'', conversationId = ''c1''\<rparr>,
        \<lparr>role = ''assistant'', content = [], msg_id = ''m2'', conversationId = ''c1''\<rparr>])]"

text \<open>A conversation of twelve messages, the fifth with a role that is not a chat role.\<close>

definition stored :: "string \<Rightarrow> string \<Rightarrow> StoredMessage" where
  "stored r c = \<lparr>role = r, content = c, msg_id = ''m'' @ c, conversationId = ''c9''\<rparr>"

definition long_memory :: memory where
  "long_memory =
     [(''c9'',
       [stored ''user'' ''1'', stored ''assistant'' ''2'', stored ''user'' ''3'',
        stored ''assistant'' ''4'', stored ''tool'' ''5'', stored ''user'' ''6'',
        stored ''assistant'' ''7'', stored ''user'' ''8'', stored ''assistant'' ''9'',
        stored ''user'' ''10'', stored ''assistant'' ''11'', stored ''user'' ''12''])]"

definition hello_service :: AIService where
  "hello_service =
     new_AIService (\<lambda>k. hello_client) live_options (Some (memory_history example_memory))"

definition silent_service :: AIService where
  "silent_service = new_AIService (\<lambda>k. silent_client) live_options None"

definition rag_service :: "RAGService \<Rightarrow> AIService" where
  "rag_service rag =
     new_AIService (\<lambda>k. hello_client)
       (live_options\<lparr>enableRAG := Some True, ragService := Some rag\<rparr>) None"

definition long_service :: AIService where
  "long_service =
     new_AIService (\<lambda>k. hello_client) live_options (Some (memory_history long_memory))"

text \<open>A backend that rejects the API key, a service in demo mode, and a storage that is down.\<close>

definition unauthorized_client :: OpenAI where
  "unauthorized_client =
     (\<lambda>request. Inl \<lparr>status = Some 401, code = Some ''invalid_api_key'',
                      message = Some ''Incorrect API key provided''\<rparr>)"

definition unauthorized_service :: AIService where
  "unauthorized_service = new_AIService (\<lambda>k. unauthorized_client) live_options None"

definition demo_service :: AIService where
  "demo_service = new_AIService (\<lambda>k. hello_client) no_options None"

definition broken_storage :: ConversationStorage where
  "broken_storage =
     \<lparr>getMessage = (\<lambda>mid. Inl (new_Error ''connection refused'')),
      getRecentMessages = (\<lambda>cid limit. Inr [])\<rparr>"

text \<open>
  A backend whose call throws a given error, one whose stream throws it after the fragment
  \<open>Hel\<close>, and the configured service around a backend.
\<close>

definition failing_client :: "js_error \<Rightarrow> OpenAI" where
  "failing_client e = (\<lambda>request. Inl e)"

definition interrupted_client :: "js_error \<Rightarrow> OpenAI" where
  "interrupted_client e = (\<lambda>request. Inr ([Some ''Hel'', None], Some e))"

definition client_service :: "OpenAI \<Rightarrow> AIService" where
  "client_service client = new_AIService (\<lambda>k. client) live_options None"

text \<open>A retrieval collaborator that finds one passage at relevance 0.8.\<close>

definition one_doc_rag :: RAGService where
  "one_doc_rag =
     (\<lambda>query nResults minRelevanceScore.
        Inr [\<lparr>doc_title = ''Pricing'', doc_content = ''Plans start at 5 dollars.'',
              doc_relevanceScore = 8 / 10, doc_type = None, doc_href = Some ''/pricing''\<rparr>])"

text \<open>
  A page context with a timestamp only, and one with every named key and two custom keys
  (the first page name is present and empty), with the text expected for it.
\<close>

definition timestamp_context :: "string PageContext" where
  "timestamp_context = empty_PageContext\<lparr>timestamp := Some ''2024-05-01T10:00:00Z''\<rparr>"

definition billing_context :: "string PageContext" where
  "billing_context =
     \<lparr>currentPage = Some [], page = Some ''/billing'', route = Some ''/ignored'',
      userRole = Some ''admin'', recentActions = Some [''Opened invoice'', ''Clicked pay''],
      navigationHistory = Some [''/billing''],
      timestamp = Some ''2024-05-01T10:00:00Z'',
      custom = [(''plan'', ''\"pro\"''), (''seats'', ''3'')]\<rparr>"

definition billing_text :: string where
  "billing_text =
     ''Current Context:\<newline>''
     @ ''- Page: /billing\<newline>''
     @ ''- User Role: admin\<newline>''
     @ ''- Recent Pages: /billing\<newline>''
     @ ''- Recent Actions:\<newline>''
     @ ''  * Opened invoice\<newline>''
     @ ''  * Clicked pay\<newline>''
     @ ''- plan: \"pro\"\<newline>''
     @ ''- seats: 3\<newline>''
     @ ''\<newline>Based on this context, provide relevant and specific assistance.''"

lemmas example_defs =
  new_AIService_def live_options_def no_options_def hello_service_def silent_service_def
  rag_service_def long_service_def memory_history_def example_runtime_def
  hello_client_def silent_client_def throwing_rag_def empty_rag_def
  empty_PageContext_def or_default_def truthy_def system_msg_def user_msg_def

section \<open>Lemmas on the loops and on context assembly\<close>

lemma mock_run: "mockStreamResponse um pc = (map Text mockResponses, None)"
  by (simp add: mockStreamResponse_def mockResponses_def)

lemma push_history_filter:
  "push_history h ms = ms @ filter from_conversation h"
  by (induction h arbitrary: ms) (simp_all add: from_conversation_def)

lemma consume_fragments:
  "consume chunks (y, t, h) =
     (y @ map Text (nonempty_fragments chunks),
      t + sum_list (map length (nonempty_fragments chunks)),
      h \<or> nonempty_fragments chunks \<noteq> [])"
proof (induction chunks arbitrary: y t h)
  case Nil
  then show ?case by (simp add: nonempty_fragments_def)
next
  case (Cons c cs)
  show ?case
  proof (cases c)
    case None
    then show ?thesis using Cons by (simp add: nonempty_fragments_def truthy_def or_default_def)
  next
    case (Some s)
    then show ?thesis using Cons
      by (cases "s = []") (simp_all add: nonempty_fragments_def truthy_def or_default_def)
  qed
qed

lemma current_turn_truthy:
  "(if truthy um then [user_msg (or_default um [])] else []) = current_turn um"
  by (cases um) (simp_all add: truthy_def or_default_def current_turn_def)

lemma page_segment_push:
  "(case pc of None \<Rightarrow> ms
    | Some p \<Rightarrow> if length (Object_keys p) > 0
        then ms @ [system_msg (getPageContextPrompt (JSON_stringify rt) p)] else ms)
   = ms @ page_segment rt pc"
  by (cases pc) (simp_all add: page_segment_def)

lemma buildContext_unfold:
  "buildContext rt svc cid pc um =
     (case conversationHistory svc of
        None \<Rightarrow> Inr (fixed_segments rt svc pc um @ current_turn um, snd (rag_part rt svc um))
      | Some recent \<Rightarrow>
          (case recent cid 10 of
             Inl e \<Rightarrow> Inl e
           | Inr history \<Rightarrow>
               Inr (fixed_segments rt svc pc um @ filter from_conversation history
                      @ current_turn um,
                    snd (rag_part rt svc um))))"
  unfolding buildContext_def Let_def current_turn_truthy page_segment_push
    push_history_filter fixed_segments_def
  by (simp split: option.splits sum.splits)

lemma rag_part_throw:
  assumes "rag (or_default um []) 3 (6 / 10) = Inl e"
  shows "rag_part rt (svc\<lparr>config := (config svc)\<lparr>cfg_ragService := Some rag\<rparr>\<rparr>) um = ([], [])"
  using assms by (simp add: rag_part_def)

lemma rag_part_empty:
  assumes "rag (or_default um []) 3 (6 / 10) = Inr []"
  shows "rag_part rt (svc\<lparr>config := (config svc)\<lparr>cfg_ragService := Some rag\<rparr>\<rparr>) um = ([], [])"
  using assms by (simp add: rag_part_def)

lemma rag_part_none:
  shows "rag_part rt (svc\<lparr>config := (config svc)\<lparr>cfg_ragService := None\<rparr>\<rparr>) um = ([], [])"
  by (simp add: rag_part_def)

lemma buildContext_error_is_history:
  assumes "buildContext rt svc cid pc um = Inl x"
  shows "\<exists>h. conversationHistory svc = Some h \<and> h cid 10 = Inl x"
  using assms by (auto simp: buildContext_unfold split: option.splits sum.splits)

lemma rag_part_shape:
  "length (fst (rag_part rt svc um)) \<le> 1
   \<and> list_all (\<lambda>m. role m = ''system'') (fst (rag_part rt svc um))"
  by (simp add: rag_part_def Let_def system_msg_def split: option.splits sum.splits)

lemma rag_part_falsy: "\<not> truthy um \<Longrightarrow> rag_part rt svc um = ([], [])"
  by (simp add: rag_part_def)

lemma page_segment_shape:
  "length (page_segment rt pc) \<le> 1 \<and> list_all (\<lambda>m. role m = ''system'') (page_segment rt pc)"
  by (simp add: page_segment_def system_msg_def split: option.splits)

lemma fixed_segments_shape:
  "length (fixed_segments rt svc pc um) \<le> 3
   \<and> list_all (\<lambda>m. role m = ''system'') (fixed_segments rt svc pc um)"
  using rag_part_shape [of rt svc um] page_segment_shape [of rt pc]
  by (simp add: fixed_segments_def system_msg_def)

lemma current_turn_shape: "length (current_turn um) \<le> 1"
  by (simp add: current_turn_def split: option.splits)

lemma current_turn_last:
  "truthy um \<Longrightarrow> current_turn um = [user_msg (or_default um [])]"
  by (cases um) (simp_all add: truthy_def current_turn_def or_default_def)

lemma current_turn_falsy: "\<not> truthy um \<Longrightarrow> current_turn um = []"
  by (cases um) (simp_all add: truthy_def current_turn_def)

lemma slice_last_most_recent: "0 < n \<Longrightarrow> slice_last n xs = most_recent n xs"
  by (simp add: slice_last_def most_recent_def take_rev)

lemma memory_window:
  "memory_getRecentMessages store cid 10 = map plain (most_recent 10 (conversation_of store cid))"
proof -
  have "slice_last 10 (conversation_of store cid) = most_recent 10 (conversation_of store cid)"
    by (rule slice_last_most_recent) simp
  then show ?thesis
    by (simp add: memory_getRecentMessages_def conversation_of_def plain_def [abs_def] Let_def)
qed

lemma hello_context:
  "buildContext example_runtime hello_service ''c1'' (Some empty_PageContext) (Some ''hi'')
   = Inr ([\<lparr>role = ''system'', content = ''Be brief.''\<rparr>,
           \<lparr>role = ''user'', content = ''hi''\<rparr>,
           \<lparr>role = ''assistant'', content = []\<rparr>,
           \<lparr>role = ''user'', content = ''hi''\<rparr>], [])"
  by (simp add: buildContext_def example_defs example_memory_def memory_getRecentMessages_def
      slice_last_def Object_keys_def present_def rag_part_def Let_def)

lemma long_context:
  "buildContext example_runtime long_service ''c9'' None (Some ''13'')
   = Inr ([\<lparr>role = ''system'', content = ''Be brief.''\<rparr>,
           \<lparr>role = ''user'', content = ''3''\<rparr>,
           \<lparr>role = ''assistant'', content = ''4''\<rparr>,
           \<lparr>role = ''user'', content = ''6''\<rparr>,
           \<lparr>role = ''assistant'', content = ''7''\<rparr>,
           \<lparr>role = ''user'', content = ''8''\<rparr>,
           \<lparr>role = ''assistant'', content = ''9''\<rparr>,
           \<lparr>role = ''user'', content = ''10''\<rparr>,
           \<lparr>role = ''assistant'', content = ''11''\<rparr>,
           \<lparr>role = ''user'', content = ''12''\<rparr>,
           \<lparr>role = ''user'', content = ''13''\<rparr>], [])"
  by (simp add: buildContext_def example_defs long_memory_def stored_def
      memory_getRecentMessages_def slice_last_def rag_part_def Let_def)


section \<open>Lemmas on the stream endpoint\<close>

text \<open>The recogniser accepts exactly the lists of the form required by the order of events.\<close>

lemma after_chunks_split: "\<exists>cs. ws = map Chunk cs @ after_chunks ws"
proof (induction ws rule: after_chunks.induct)
  case (1 c ws)
  then obtain cs where "ws = map Chunk cs @ after_chunks ws" by blast
  then have "Chunk c # ws = map Chunk (c # cs) @ after_chunks (Chunk c # ws)" by simp
  then show ?case by blast
qed (auto intro: exI [of _ "[]"])

lemma terminal_only_iff:
  "terminal_only ws \<longleftrightarrow> (ws = [Done] \<or> (\<exists>m. ws = [ErrorEvent m]))"
  by (cases ws rule: terminal_only.cases) simp_all

lemma after_chunks_map: "after_chunks (map Chunk cs @ ws) = after_chunks ws"
  by (induction cs) simp_all

lemma after_sources_other:
  "\<not> (\<exists>s rest. ws = SourcesEvent s # rest) \<Longrightarrow> after_sources ws = ws"
  by (cases ws rule: after_sources.cases) simp_all

lemma event_order_ok_iff:
  "event_order_ok ws \<longleftrightarrow>
     (\<exists>cs ss t. ws = map Chunk cs @ ss @ [t]
        \<and> (ss = [] \<or> (\<exists>s. ss = [SourcesEvent s]))
        \<and> (t = Done \<or> (\<exists>m. t = ErrorEvent m)))"
proof
  assume ok: "event_order_ok ws"
  obtain cs where cs: "ws = map Chunk cs @ after_chunks ws"
    using after_chunks_split by blast
  show "\<exists>cs ss t. ws = map Chunk cs @ ss @ [t]
        \<and> (ss = [] \<or> (\<exists>s. ss = [SourcesEvent s]))
        \<and> (t = Done \<or> (\<exists>m. t = ErrorEvent m))"
  proof (cases "\<exists>s rest. after_chunks ws = SourcesEvent s # rest")
    case True
    then obtain s rest where sr: "after_chunks ws = SourcesEvent s # rest" by blast
    then have "terminal_only rest" using ok by (simp add: event_order_ok_def)
    then obtain t where t: "rest = [t]" "t = Done \<or> (\<exists>m. t = ErrorEvent m)"
      by (auto simp: terminal_only_iff)
    have "ws = map Chunk cs @ [SourcesEvent s] @ [t]"
      using cs sr t(1) by simp
    then show ?thesis using t(2) by blast
  next
    case False
    then have "terminal_only (after_chunks ws)"
      using ok by (simp add: event_order_ok_def after_sources_other)
    then obtain t where t: "after_chunks ws = [t]" "t = Done \<or> (\<exists>m. t = ErrorEvent m)"
      by (auto simp: terminal_only_iff)
    have "ws = map Chunk cs @ [] @ [t]"
      using cs t(1) by simp
    then show ?thesis using t(2) by blast
  qed
next
  assume "\<exists>cs ss t. ws = map Chunk cs @ ss @ [t]
        \<and> (ss = [] \<or> (\<exists>s. ss = [SourcesEvent s]))
        \<and> (t = Done \<or> (\<exists>m. t = ErrorEvent m))"
  then show "event_order_ok ws"
    by (auto simp: event_order_ok_def after_chunks_map)
qed

lemma written_append: "written (a @ b) = written a @ written b"
  by (induction a rule: written.induct) simp_all

lemma written_drain: "written (drain items) = map encode items"
  by (induction items rule: drain.induct) simp_all

lemma written_sse_headers: "written sse_headers = []"
  by (simp add: sse_headers_def)

lemma order_ok_shape:
  assumes "texts_then_sources items" and "terminal_only [t]"
  shows "event_order_ok (map encode items @ [t])"
  using assms
proof (induction items rule: texts_then_sources.induct)
  case 1
  then show ?case by (cases t) (simp_all add: event_order_ok_def)
next
  case (2 c rest)
  then show ?case by (simp add: event_order_ok_def)
next
  case (3 s)
  then show ?case by (cases t) (simp_all add: event_order_ok_def)
next
  case (4 s x rest)
  then show ?case by simp
qed

lemma texts_shape: "texts_then_sources (map Text ts)"
  by (induction ts) simp_all

lemma texts_sources_shape: "texts_then_sources (map Text ts @ [Sources s])"
  by (induction ts) simp_all

lemma texts_fallback_shape: "texts_then_sources (map Text ts @ [Text m])"
  using texts_shape [of "ts @ [m]"] by simp

lemma texts_fallback_sources_shape: "texts_then_sources (map Text ts @ [Text m, Sources s])"
  using texts_sources_shape [of "ts @ [m]" s] by simp

lemma stream_try_shape: "texts_then_sources (fst (stream_try rt svc cid um pc))"
  unfolding stream_try_def
  by (simp add: consume_fragments Let_def mock_run texts_shape texts_sources_shape
      texts_fallback_shape texts_fallback_sources_shape
      split: option.splits sum.splits prod.splits)

lemma stream_shape: "texts_then_sources (fst (streamChatCompletion rt svc cid um pc))"
  using stream_try_shape [of rt svc cid um pc]
  by (cases "stream_try rt svc cid um pc", cases "snd (stream_try rt svc cid um pc)")
     (simp_all add: streamChatCompletion_def)

lemma written_inner_block:
  "written (inner_block (items, out)) =
     map encode items @ [case out of None \<Rightarrow> Done | Some e \<Rightarrow> ErrorEvent (message e)]"
  by (cases out) (simp_all add: inner_block_def inner_try_def written_append written_drain)

lemma last_inner_block: "last (inner_block run) = End"
  by (cases run, cases "snd run") (simp_all add: inner_block_def inner_try_def)

lemma validate_rejected:
  "validate storage mid = Inr (Rejected tr) \<Longrightarrow>
     tr = [Status 404, Json ''Message not found'']
     \<or> tr = [Status 400, Json ''No user message found'']"
  by (auto simp: validate_def split: sum.splits option.splits)

lemma endpoint_cases:
  "stream_endpoint rt storage svc mid ctx =
     (case validate storage mid of
        Inl e \<Rightarrow> [Status 500, Json ''Failed to stream response'']
      | Inr (Rejected tr) \<Rightarrow> tr
      | Inr (Accepted cid um) \<Rightarrow>
          sse_headers @ inner_block (streamChatCompletion rt svc cid um
                                       (Some (parse_context rt ctx))))"
  by (simp add: stream_endpoint_def outer_try_def headersSent_def Let_def
      split: sum.splits validation.splits)

lemma encode_not_error: "filter is_error_event (map encode items) = []"
  by (induction items rule: drain.induct) (simp_all add: is_error_event_def)

lemma encode_not_done: "Done \<notin> encode ` set items"
  by (induction items rule: drain.induct) simp_all

lemma no_json_in_drain: "Json b \<notin> set (drain items)"
  by (induction items rule: drain.induct) simp_all

lemma no_flush_in_drain: "FlushHeaders \<notin> set (drain items)"
  by (induction items rule: drain.induct) simp_all

lemma inner_block_ok:
  "inner_block (items, None) = drain items @ [Pull, Write Done, End]"
  by (simp add: inner_block_def inner_try_def)

lemma inner_block_error:
  "inner_block (items, Some e) = drain items @ [Pull, Write (ErrorEvent (message e)), End]"
  by (simp add: inner_block_def inner_try_def)

lemma normalize_error_taxonomy:
  "status (normalize_error cause) = None \<and> code (normalize_error cause) = None
   \<and> (\<exists>m. message (normalize_error cause) = Some m
          \<and> (m \<in> set fixed_messages \<or> m = unknown_message (message cause)))"
  by (simp add: normalize_error_def new_Error_def fixed_messages_def)

lemma normalize_error_401:
  "status cause = Some 401 \<Longrightarrow> normalize_error cause = new_Error auth_message"
  by (simp add: normalize_error_def)

lemma normalize_error_mapping:
  "(status cause = Some 429 \<longrightarrow>
      message (normalize_error cause)
      = Some ''I'm receiving too many requests right now. Please wait a moment and try again.'')
   \<and> (status cause = Some 401 \<longrightarrow>
      message (normalize_error cause)
      = Some ''API authentication failed. Please contact your administrator.'')
   \<and> ((\<exists>s. status cause = Some s \<and> 500 \<le> s) \<longrightarrow>
      message (normalize_error cause)
      = Some ''The AI service is temporarily unavailable. Please try again in a few moments.'')
   \<and> (status_selects_nothing cause \<and> code cause = Some ''insufficient_quota'' \<longrightarrow>
      message (normalize_error cause)
      = Some ''API usage limit reached. Please contact your administrator.'')
   \<and> (status_selects_nothing cause
        \<and> (code cause = Some ''ETIMEDOUT'' \<or> code cause = Some ''ECONNABORTED'') \<longrightarrow>
      message (normalize_error cause)
      = Some ''Request timed out. Please check your connection and try again.'')
   \<and> (status_selects_nothing cause \<and> code cause \<noteq> Some ''insufficient_quota''
        \<and> code cause \<noteq> Some ''ETIMEDOUT'' \<and> code cause \<noteq> Some ''ECONNABORTED'' \<longrightarrow>
      message (normalize_error cause)
      = Some (''Unable to process your request: '' @ raw_or_unknown (message cause)
              @ ''. Please try again.''))"
proof -
  have raw: "unknown_message (message cause)
             = ''Unable to process your request: '' @ raw_or_unknown (message cause)
               @ ''. Please try again.''"
    by (cases "message cause")
       (simp_all add: unknown_message_def raw_or_unknown_def truthy_def or_default_def)
  have a: "status cause = Some 429 \<longrightarrow>
      message (normalize_error cause)
      = Some ''I'm receiving too many requests right now. Please wait a moment and try again.''"
    by (simp add: normalize_error_def new_Error_def rate_limit_message_def)
  have b: "status cause = Some 401 \<longrightarrow>
      message (normalize_error cause)
      = Some ''API authentication failed. Please contact your administrator.''"
    by (simp add: normalize_error_def new_Error_def auth_message_def)
  have c: "(\<exists>s. status cause = Some s \<and> 500 \<le> s) \<longrightarrow>
      message (normalize_error cause)
      = Some ''The AI service is temporarily unavailable. Please try again in a few moments.''"
    by (auto simp: normalize_error_def new_Error_def unavailable_message_def)
  have d: "status_selects_nothing cause \<and> code cause = Some ''insufficient_quota'' \<longrightarrow>
      message (normalize_error cause)
      = Some ''API usage limit reached. Please contact your administrator.''"
    by (auto simp: normalize_error_def new_Error_def quota_message_def
        status_selects_nothing_def split: option.splits)
  have e: "status_selects_nothing cause
        \<and> (code cause = Some ''ETIMEDOUT'' \<or> code cause = Some ''ECONNABORTED'') \<longrightarrow>
      message (normalize_error cause)
      = Some ''Request timed out. Please check your connection and try again.''"
    by (auto simp: normalize_error_def new_Error_def timeout_message_def
        status_selects_nothing_def split: option.splits)
  have f: "status_selects_nothing cause \<and> code cause \<noteq> Some ''insufficient_quota''
        \<and> code cause \<noteq> Some ''ETIMEDOUT'' \<and> code cause \<noteq> Some ''ECONNABORTED'' \<longrightarrow>
      message (normalize_error cause)
      = Some (''Unable to process your request: '' @ raw_or_unknown (message cause)
              @ ''. Please try again.'')"
    unfolding raw [symmetric]
    by (auto simp: normalize_error_def new_Error_def status_selects_nothing_def
        split: option.splits)
  show ?thesis using a b c d e f by blast
qed

lemma stream_backend_failure:
  assumes "isConfigured svc" and "openai svc = Some client"
    and "buildContext rt svc cid pc (Some um) = Inr (msgs, srcs)"
    and "backend_failure (client (completion_request svc msgs)) = Some (frags, cause)"
  shows "streamChatCompletion rt svc cid um pc = (map Text frags, Some (normalize_error cause))"
  using assms
  by (auto simp: streamChatCompletion_def stream_try_def backend_failure_def consume_fragments
      split: sum.splits option.splits prod.splits)

lemma after_writes_drain:
  "k \<le> length items \<Longrightarrow> after_writes k (drain items @ rest) = drain (drop k items) @ rest"
proof (induction items arbitrary: k)
  case Nil
  then show ?case by simp
next
  case (Cons x xs)
  show ?case
  proof (cases k)
    case 0
    then show ?thesis by simp
  next
    case (Suc j)
    then have "j \<le> length xs" using Cons.prems by simp
    then show ?thesis using Cons.IH [of j] Suc by (cases x) simp_all
  qed
qed

lemma after_writes_headers: "0 < k \<Longrightarrow> after_writes k (sse_headers @ tr) = after_writes k tr"
  by (cases k) (simp_all add: sse_headers_def)

lemma count_pull_drain: "count_list (drain items) Pull = length items"
  by (induction items rule: drain.induct) simp_all

lemmas run_defs =
  unauthorized_client_def unauthorized_service_def demo_service_def broken_storage_def
  one_doc_rag_def memory_storage_def example_memory_def memory_getRecentMessages_def
  slice_last_def validate_def parse_context_def

lemma validate_example:
  "validate (memory_storage example_memory) ''m2'' = Inr (Accepted ''c1'' ''hi'')"
  by (simp add: run_defs)

lemma validate_broken: "validate broken_storage ''m2'' = Inl (new_Error ''connection refused'')"
  by (simp add: run_defs)

lemma parse_context_absent: "parse_context rt None = empty_PageContext"
  by (simp add: parse_context_def truthy_def)

lemma one_doc_run:
  "streamChatCompletion example_runtime (rag_service one_doc_rag) ''c1'' ''hi''
     (Some empty_PageContext)
   = ([Text ''Hel'', Text ''lo'',
       Sources [\<lparr>src_type = ''knowledge-base'', src_title = ''Pricing'',
                 src_href = Some ''/pricing'', src_relevance = 8 / 10\<rparr>]], None)"
  by (simp add: streamChatCompletion_def stream_try_def buildContext_def example_defs run_defs
      rag_part_def rag_step_def Object_keys_def present_def Let_def)

lemma one_doc_endpoint:
  "stream_endpoint example_runtime (memory_storage example_memory) (rag_service one_doc_rag)
     ''m2'' None
   = sse_headers
     @ [Pull, Write (Chunk ''Hel''), Pull, Write (Chunk ''lo''), Pull,
        Write (SourcesEvent [\<lparr>src_type = ''knowledge-base'', src_title = ''Pricing'',
                               src_href = Some ''/pricing'', src_relevance = 8 / 10\<rparr>]),
        Pull, Write Done, End]"
  by (simp add: endpoint_cases validate_example parse_context_absent one_doc_run inner_block_ok)

lemma unauthorized_context:
  "buildContext example_runtime unauthorized_service ''c1''
     (Some (parse_context example_runtime None)) (Some ''hi'')
   = Inr ([\<lparr>role = ''system'', content = ''Be brief.''\<rparr>,
           \<lparr>role = ''user'', content = ''hi''\<rparr>], [])"
  by (simp add: buildContext_def example_defs run_defs rag_part_def Object_keys_def
      present_def Let_def)

lemma unauthorized_failure:
  "backend_failure
     (unauthorized_client
        (completion_request unauthorized_service
           [\<lparr>role = ''system'', content = ''Be brief.''\<rparr>,
            \<lparr>role = ''user'', content = ''hi''\<rparr>]))
   = Some ([], \<lparr>status = Some 401, code = Some ''invalid_api_key'',
                 message = Some ''Incorrect API key provided''\<rparr>)"
  by (simp add: backend_failure_def unauthorized_client_def)

lemma client_service_context:
  "buildContext example_runtime (client_service client) ''c1''
     (Some (parse_context example_runtime None)) (Some ''hi'')
   = Inr ([\<lparr>role = ''system'', content = ''Be brief.''\<rparr>,
           \<lparr>role = ''user'', content = ''hi''\<rparr>], [])"
  by (simp add: buildContext_def client_service_def example_defs run_defs rag_part_def
      Object_keys_def present_def Let_def)

lemma client_service_configured:
  "isConfigured (client_service client)" "openai (client_service client) = Some client"
  by (simp_all add: client_service_def example_defs)

lemma failing_client_failure:
  "backend_failure (failing_client e request) = Some ([], e)"
  by (simp add: backend_failure_def failing_client_def)

lemma interrupted_client_failure:
  "backend_failure (interrupted_client e request) = Some ([''Hel''], e)"
  by (simp add: backend_failure_def interrupted_client_def nonempty_fragments_def or_default_def)

lemma broken_endpoint:
  "stream_endpoint example_runtime broken_storage hello_service ''m2'' None
   = [Status 500, Json ''Failed to stream response'']"
  by (simp add: endpoint_cases validate_broken)

lemma unauthorized_run:
  "streamChatCompletion example_runtime unauthorized_service ''c1'' ''hi''
     (Some (parse_context example_runtime None))
   = ([], Some (new_Error auth_message))"
proof -
  have c: "isConfigured unauthorized_service"
    and o: "openai unauthorized_service = Some unauthorized_client"
    by (simp_all add: example_defs run_defs)
  show ?thesis
    using stream_backend_failure [OF c o unauthorized_context unauthorized_failure]
    by (simp add: normalize_error_def)
qed

lemma unauthorized_endpoint:
  "stream_endpoint example_runtime (memory_storage example_memory) unauthorized_service
     ''m2'' None
   = sse_headers @ [Pull, Write (ErrorEvent (Some auth_message)), End]"
  by (simp add: endpoint_cases validate_example unauthorized_run inner_block_error new_Error_def)

lemma demo_endpoint:
  "stream_endpoint example_runtime (memory_storage example_memory) demo_service ''m2'' None
   = sse_headers @ drain (map Text mockResponses) @ [Pull, Write Done, End]"
proof -
  have "\<not> isConfigured demo_service" by (simp add: demo_service_def example_defs)
  then have "streamChatCompletion example_runtime demo_service ''c1'' ''hi''
               (Some (parse_context example_runtime None)) = (map Text mockResponses, None)"
    by (simp add: streamChatCompletion_def stream_try_def mock_run)
  then show ?thesis
    by (simp add: endpoint_cases validate_example inner_block_ok)
qed

section \<open>Lemmas on the page-context text\<close>

lemma fold_append_action:
  "fold append_action actions t = t @ concat (map bullet_line actions)"
  by (induction actions arbitrary: t) (simp_all add: append_action_def bullet_line_def)

lemma fold_append_custom:
  "fold (append_custom stringify) kvs t = t @ generic_lines stringify kvs"
  by (induction kvs arbitrary: t)
     (simp_all add: append_custom_def generic_lines_def labelled_line_def)

lemma page_part:
  "(if truthy (js_or (js_or a b) c)
    then t @ ''- Page: '' @ or_default (js_or (js_or a b) c) [] @ ''\<newline>'' else t)
   = t @ (case first_nonempty [a, b, c] of None \<Rightarrow> [] | Some p \<Rightarrow> labelled_line ''Page'' p)"
  by (cases a; cases b; cases c)
     (simp_all add: js_or_def truthy_def or_default_def labelled_line_def)

lemma role_part:
  "(if truthy r then t @ ''- User Role: '' @ or_default r [] @ ''\<newline>'' else t)
   = t @ (case r of None \<Rightarrow> []
          | Some x \<Rightarrow> if x = [] then [] else labelled_line ''User Role'' x)"
  by (cases r) (simp_all add: truthy_def or_default_def labelled_line_def)

lemma nav_part:
  "(case n of None \<Rightarrow> t
    | Some nav \<Rightarrow> if length nav > 0
        then t @ ''- Recent Pages: '' @ join recent_pages_separator nav @ ''\<newline>'' else t)
   = t @ (case n of None \<Rightarrow> []
          | Some nav \<Rightarrow> if nav = [] then []
              else labelled_line ''Recent Pages'' (join recent_pages_separator nav))"
  by (cases n) (simp_all add: labelled_line_def)

lemma actions_part:
  "(case r of None \<Rightarrow> t
    | Some actions \<Rightarrow> if length actions > 0
        then fold append_action actions (t @ ''- Recent Actions:\<newline>'') else t)
   = t @ (case r of None \<Rightarrow> []
          | Some actions \<Rightarrow> if actions = [] then []
              else ''- Recent Actions:\<newline>'' @ concat (map bullet_line actions))"
  by (cases r) (simp_all add: fold_append_action)

lemma getPageContextPrompt_rendered:
  "getPageContextPrompt stringify pc = rendered_context recent_pages_separator stringify pc"
  unfolding getPageContextPrompt_def Let_def page_part role_part nav_part actions_part
    fold_append_custom rendered_context_def
  by simp

lemma billing_keys:
  "Object_keys billing_context
   = [''currentPage'', ''page'', ''route'', ''userRole'', ''recentActions'',
      ''navigationHistory'', ''timestamp'', ''plan'', ''seats'']"
  by (simp add: billing_context_def Object_keys_def present_def)

lemma billing_rendered:
  "rendered_context sep (JSON_stringify example_runtime) billing_context = billing_text"
  by (simp add: rendered_context_def billing_context_def billing_text_def truthy_def
      labelled_line_def bullet_line_def generic_lines_def excluded_keys_def
      example_runtime_def)

lemma plain_context:
  "buildContext example_runtime silent_service ''c1'' None (Some ''hi'')
   = Inr ([\<lparr>role = ''system'', content = ''Be brief.''\<rparr>,
           \<lparr>role = ''user'', content = ''hi''\<rparr>], [])"
  by (simp add: buildContext_def example_defs rag_part_def Let_def)

section \<open>Context assembly\<close>

text \<open>
  Claim C2, as amended. Unless the history collaborator throws (the only error that
  \<open>buildContext\<close> lets through), the list returned by \<open>buildContext\<close> is not empty and
  its first element is the system segment holding the configured persona. If the current
  user message is not empty, the last element is the user segment holding it, whatever the
  history and the page context are. If the message is absent or empty, no segment is
  appended for the current turn: the list is the persona segment, the optional page-context
  segment and the history segments.
\<close>

theorem persona_first_user_turn_last:
  "case buildContext rt svc cid pc um of
     Inl e \<Rightarrow> (\<exists>h. conversationHistory svc = Some h \<and> h cid 10 = Inl e)
   | Inr (ms, ss) \<Rightarrow>
       ms \<noteq> [] \<and> hd ms = system_msg (cfg_systemPrompt (config svc))
       \<and> (truthy um \<longrightarrow> last ms = user_msg (or_default um []))
       \<and> (\<not> truthy um \<longrightarrow>
            ms = system_msg (cfg_systemPrompt (config svc)) # page_segment rt pc
                 @ filter from_conversation (history_of svc cid))"
proof (cases "buildContext rt svc cid pc um")
  case (Inl e)
  then show ?thesis using buildContext_error_is_history [OF Inl] by simp
next
  case (Inr r)
  obtain ms ss where r: "r = (ms, ss)" by (cases r)
  have ms: "ms = fixed_segments rt svc pc um @ filter from_conversation (history_of svc cid)
                 @ current_turn um"
    using Inr r
    by (auto simp: buildContext_unfold history_of_def split: option.splits sum.splits)
  have hd: "ms \<noteq> [] \<and> hd ms = system_msg (cfg_systemPrompt (config svc))"
    by (simp add: ms fixed_segments_def)
  have l: "truthy um \<longrightarrow> last ms = user_msg (or_default um [])"
    by (simp add: ms current_turn_last)
  have f: "\<not> truthy um \<longrightarrow>
            ms = system_msg (cfg_systemPrompt (config svc)) # page_segment rt pc
                 @ filter from_conversation (history_of svc cid)"
    by (simp add: ms current_turn_falsy rag_part_falsy fixed_segments_def)
  show ?thesis using Inr r hd l f by simp
qed

theorem persona_first_user_turn_last_witness:
  "truthy (Some ''hi'')
   \<and> buildContext example_runtime hello_service ''c1'' (Some empty_PageContext) (Some ''hi'')
     = Inr ([\<lparr>role = ''system'', content = ''Be brief.''\<rparr>,
             \<lparr>role = ''user'', content = ''hi''\<rparr>,
             \<lparr>role = ''assistant'', content = []\<rparr>,
             \<lparr>role = ''user'', content = ''hi''\<rparr>], [])
   \<and> hd [\<lparr>role = ''system'', content = ''Be brief.''\<rparr>,
             \<lparr>role = ''user'', content = ''hi''\<rparr>,
             \<lparr>role = ''assistant'', content = []\<rparr>,
             \<lparr>role = ''user'', content = ''hi''\<rparr>]
     = system_msg (cfg_systemPrompt (config hello_service))
   \<and> last [\<lparr>role = ''system'', content = ''Be brief.''\<rparr>,
             \<lparr>role = ''user'', content = ''hi''\<rparr>,
             \<lparr>role = ''assistant'', content = []\<rparr>,
             \<lparr>role = ''user'', content = ''hi''\<rparr>]
     = user_msg ''hi''"
proof -
  have t: "truthy (Some ''hi'')" by (simp add: truthy_def)
  show ?thesis
    using t hello_context
      persona_first_user_turn_last [where rt = example_runtime and svc = hello_service
        and cid = "''c1''" and pc = "Some empty_PageContext" and um = "Some ''hi''"]
    by (simp add: or_default_def)
qed

text \<open>
  The claim as stated fails for the empty user message: the list returned is the persona
  segment alone, and its last element is not a user segment.
\<close>

theorem user_turn_last_counterexample:
  "buildContext example_runtime (new_AIService (\<lambda>k. hello_client) live_options None)
     ''c1'' (Some empty_PageContext) (Some [])
   = Inr ([\<lparr>role = ''system'', content = ''Be brief.''\<rparr>], [])
   \<and> last [\<lparr>role = ''system'', content = ''Be brief.''\<rparr>] \<noteq> user_msg []"
  by (simp add: buildContext_def new_AIService_def live_options_def no_options_def
      empty_PageContext_def Object_keys_def present_def rag_part_def truthy_def or_default_def
      system_msg_def user_msg_def Let_def)


text \<open>
  Claim C3. With the example storage as the history collaborator, for a conversation of
  any length, \<open>buildContext\<close> returns the fixed segments (persona, optional page context,
  optional retrieval: at most three, all system segments), then one segment for each of
  the ten most recent messages of the conversation, oldest first, that has the role user
  or assistant (the others are skipped), then the current user turn: at most fourteen
  segments.
\<close>

theorem history_window_bounded:
  assumes "conversationHistory svc = Some (memory_history store)"
  shows "buildContext rt svc cid pc um =
           Inr (fixed_segments rt svc pc um
                @ filter from_conversation (map plain (most_recent 10 (conversation_of store cid)))
                @ current_turn um,
                snd (rag_part rt svc um))
       \<and> length (fixed_segments rt svc pc um) \<le> 3
       \<and> list_all (\<lambda>m. role m = ''system'') (fixed_segments rt svc pc um)
       \<and> length (filter from_conversation
                    (map plain (most_recent 10 (conversation_of store cid)))) \<le> 10
       \<and> length (current_turn um) \<le> 1
       \<and> length (fixed_segments rt svc pc um
                @ filter from_conversation (map plain (most_recent 10 (conversation_of store cid)))
                @ current_turn um) \<le> 14"
proof -
  have b: "buildContext rt svc cid pc um =
           Inr (fixed_segments rt svc pc um
                @ filter from_conversation (map plain (most_recent 10 (conversation_of store cid)))
                @ current_turn um,
                snd (rag_part rt svc um))"
    by (simp add: buildContext_unfold assms memory_history_def memory_window)
  have "length (map plain (most_recent 10 (conversation_of store cid))) \<le> 10"
    by (simp add: most_recent_def)
  then have w: "length (filter from_conversation
                    (map plain (most_recent 10 (conversation_of store cid)))) \<le> 10"
    by (rule order_trans [OF length_filter_le])
  show ?thesis
    using b w fixed_segments_shape [of rt svc pc um] current_turn_shape [of um] by simp
qed

theorem history_window_bounded_witness:
  "conversationHistory long_service = Some (memory_history long_memory)
   \<and> length (conversation_of long_memory ''c9'') = 12
   \<and> buildContext example_runtime long_service ''c9'' None (Some ''13'')
     = Inr ([\<lparr>role = ''system'', content = ''Be brief.''\<rparr>,
           \<lparr>role = ''user'', content = ''3''\<rparr>,
           \<lparr>role = ''assistant'', content = ''4''\<rparr>,
           \<lparr>role = ''user'', content = ''6''\<rparr>,
           \<lparr>role = ''assistant'', content = ''7''\<rparr>,
           \<lparr>role = ''user'', content = ''8''\<rparr>,
           \<lparr>role = ''assistant'', content = ''9''\<rparr>,
           \<lparr>role = ''user'', content = ''10''\<rparr>,
           \<lparr>role = ''assistant'', content = ''11''\<rparr>,
           \<lparr>role = ''user'', content = ''12''\<rparr>,
           \<lparr>role = ''user'', content = ''13''\<rparr>], [])
   \<and> buildContext example_runtime long_service ''c9'' None (Some ''13'')
     = Inr (fixed_segments example_runtime long_service None (Some ''13'')
            @ filter from_conversation
                (map plain (most_recent 10 (conversation_of long_memory ''c9'')))
            @ current_turn (Some ''13''),
            snd (rag_part example_runtime long_service (Some ''13'')))
   \<and> length (filter from_conversation
                (map plain (most_recent 10 (conversation_of long_memory ''c9'')))) \<le> 10"
proof -
  have h: "conversationHistory long_service = Some (memory_history long_memory)"
    by (simp add: long_service_def new_AIService_def live_options_def no_options_def)
  have n: "length (conversation_of long_memory ''c9'') = 12"
    by (simp add: conversation_of_def long_memory_def)
  show ?thesis
    using h n long_context
      history_window_bounded [OF h, where rt = example_runtime and cid = "''c9''"
        and pc = None and um = "Some ''13''"]
    by simp
qed

text \<open>
  Claim C6, as amended. For a page context with at least one key, \<open>buildContext\<close> returns
  what it returns without page context with exactly one more system segment, placed right
  after the persona segment; its text is the header, the line Page for the first non-empty
  of \<open>currentPage\<close>, \<open>page\<close>, \<open>route\<close>, the line User Role for a non-empty
  \<open>userRole\<close>, the line Recent Pages for a non-empty \<open>navigationHistory\<close>, the bulleted
  Recent Actions for a non-empty \<open>recentActions\<close>, one line \<open>- key: JSON(value)\<close> for
  every other key except \<open>timestamp\<close>, and the footer. For a page context without keys
  the result is the one without page context. The entries of the navigation history stand
  on the Recent Pages line in order, joined by one fixed separator; which string the
  separator is stays open in this statement.
\<close>

theorem page_context_segment:
  "\<exists>sep. \<forall>(rt :: 'j runtime) svc cid um p.
        (Object_keys p \<noteq> [] \<longrightarrow>
           (case buildContext rt svc cid None um of
              Inl e \<Rightarrow> buildContext rt svc cid (Some p) um = Inl e
            | Inr (ms, ss) \<Rightarrow>
                buildContext rt svc cid (Some p) um
                = Inr (hd ms # system_msg (rendered_context sep (JSON_stringify rt) p) # tl ms,
                       ss)))
        \<and> (Object_keys p = [] \<longrightarrow>
             buildContext rt svc cid (Some p) um = buildContext rt svc cid None um)
        \<and> getPageContextPrompt (JSON_stringify rt) p
          = rendered_context sep (JSON_stringify rt) p"
proof (intro exI [of _ recent_pages_separator] allI)
  fix rt :: "'j runtime" and svc cid um p
  let ?sep = recent_pages_separator
  have some: "Object_keys p \<noteq> [] \<Longrightarrow>
      fixed_segments rt svc (Some p) um
      = system_msg (cfg_systemPrompt (config svc))
        # system_msg (rendered_context ?sep (JSON_stringify rt) p) # fst (rag_part rt svc um)"
    by (simp add: fixed_segments_def page_segment_def getPageContextPrompt_rendered)
  have none: "fixed_segments rt svc None um
      = system_msg (cfg_systemPrompt (config svc)) # fst (rag_part rt svc um)"
    by (simp add: fixed_segments_def page_segment_def)
  have empty: "Object_keys p = [] \<Longrightarrow>
      fixed_segments rt svc (Some p) um = fixed_segments rt svc None um"
    by (simp add: fixed_segments_def page_segment_def)
  have a: "Object_keys p \<noteq> [] \<longrightarrow>
      (case buildContext rt svc cid None um of
         Inl e \<Rightarrow> buildContext rt svc cid (Some p) um = Inl e
       | Inr (ms, ss) \<Rightarrow>
           buildContext rt svc cid (Some p) um
           = Inr (hd ms # system_msg (rendered_context ?sep (JSON_stringify rt) p) # tl ms, ss))"
    by (auto simp: buildContext_unfold some none split: option.splits sum.splits)
  have b: "Object_keys p = [] \<longrightarrow>
        buildContext rt svc cid (Some p) um = buildContext rt svc cid None um"
    by (auto simp: buildContext_unfold empty split: option.splits sum.splits)
  show "(Object_keys p \<noteq> [] \<longrightarrow>
           (case buildContext rt svc cid None um of
              Inl e \<Rightarrow> buildContext rt svc cid (Some p) um = Inl e
            | Inr (ms, ss) \<Rightarrow>
                buildContext rt svc cid (Some p) um
                = Inr (hd ms # system_msg (rendered_context ?sep (JSON_stringify rt) p) # tl ms,
                       ss)))
        \<and> (Object_keys p = [] \<longrightarrow>
             buildContext rt svc cid (Some p) um = buildContext rt svc cid None um)
        \<and> getPageContextPrompt (JSON_stringify rt) p
          = rendered_context ?sep (JSON_stringify rt) p"
    using a b getPageContextPrompt_rendered [of "JSON_stringify rt" p] by blast
qed

theorem page_context_segment_witness:
  "Object_keys billing_context \<noteq> []
   \<and> buildContext example_runtime silent_service ''c1'' None (Some ''hi'')
     = Inr ([\<lparr>role = ''system'', content = ''Be brief.''\<rparr>,
             \<lparr>role = ''user'', content = ''hi''\<rparr>], [])
   \<and> buildContext example_runtime silent_service ''c1'' (Some billing_context) (Some ''hi'')
     = Inr ([\<lparr>role = ''system'', content = ''Be brief.''\<rparr>,
             \<lparr>role = ''system'', content = billing_text\<rparr>,
             \<lparr>role = ''user'', content = ''hi''\<rparr>], [])
   \<and> getPageContextPrompt (JSON_stringify example_runtime) billing_context = billing_text
   \<and> Object_keys (empty_PageContext :: string PageContext) = []
   \<and> buildContext example_runtime silent_service ''c1'' (Some empty_PageContext) (Some ''hi'')
     = buildContext example_runtime silent_service ''c1'' None (Some ''hi'')"
proof -
  have k: "Object_keys billing_context \<noteq> []"
    by (simp add: billing_keys)
  have e: "Object_keys (empty_PageContext :: string PageContext) = []"
    by (simp add: empty_PageContext_def Object_keys_def present_def)
  obtain sep where h: "\<forall>(rt :: string runtime) svc cid um p.
        (Object_keys p \<noteq> [] \<longrightarrow>
           (case buildContext rt svc cid None um of
              Inl e \<Rightarrow> buildContext rt svc cid (Some p) um = Inl e
            | Inr (ms, ss) \<Rightarrow>
                buildContext rt svc cid (Some p) um
                = Inr (hd ms # system_msg (rendered_context sep (JSON_stringify rt) p) # tl ms,
                       ss)))
        \<and> (Object_keys p = [] \<longrightarrow>
             buildContext rt svc cid (Some p) um = buildContext rt svc cid None um)
        \<and> getPageContextPrompt (JSON_stringify rt) p
          = rendered_context sep (JSON_stringify rt) p"
    using page_context_segment [where ?'j = string] by blast
  show ?thesis
    using k e plain_context billing_rendered [of sep]
      h [rule_format, of billing_context example_runtime silent_service "''c1''" "Some ''hi''"]
      h [rule_format, of "empty_PageContext :: string PageContext" example_runtime
         silent_service "''c1''" "Some ''hi''"]
    by (simp add: system_msg_def)
qed

text \<open>
  The claim as stated fails for the key \<open>timestamp\<close>: a page context that holds only a
  timestamp is not empty, and its text has no line for that key.
\<close>

theorem timestamp_not_rendered_counterexample:
  "Object_keys timestamp_context = [''timestamp'']
   \<and> getPageContextPrompt (JSON_stringify example_runtime) timestamp_context
     = ''Current Context:\<newline>\<newline>Based on this context, provide relevant and specific assistance.''"
  by (simp add: timestamp_context_def empty_PageContext_def Object_keys_def present_def
      getPageContextPrompt_def js_or_def truthy_def example_runtime_def Let_def)

text \<open>
  Claim C7. When the retrieval collaborator throws on the user message, \<open>buildContext\<close>
  returns exactly what it returns when the collaborator returns the empty list, and what
  it returns without a collaborator: no retrieval segment, no citation, and the error of
  the collaborator is not thrown (an error of \<open>buildContext\<close> is one of the history
  collaborator).
\<close>

theorem retrieval_failure_is_empty_result:
  assumes "rag (or_default um []) 3 (6 / 10) = Inl e"
    and "rag' (or_default um []) 3 (6 / 10) = Inr []"
  shows "buildContext rt (svc\<lparr>config := (config svc)\<lparr>cfg_ragService := Some rag\<rparr>\<rparr>) cid pc um
         = buildContext rt (svc\<lparr>config := (config svc)\<lparr>cfg_ragService := Some rag'\<rparr>\<rparr>) cid pc um
       \<and> buildContext rt (svc\<lparr>config := (config svc)\<lparr>cfg_ragService := Some rag\<rparr>\<rparr>) cid pc um
         = buildContext rt (svc\<lparr>config := (config svc)\<lparr>cfg_ragService := None\<rparr>\<rparr>) cid pc um
       \<and> rag_part rt (svc\<lparr>config := (config svc)\<lparr>cfg_ragService := Some rag\<rparr>\<rparr>) um = ([], [])
       \<and> (\<forall>x. buildContext rt (svc\<lparr>config := (config svc)\<lparr>cfg_ragService := Some rag\<rparr>\<rparr>) cid pc um = Inl x
            \<longrightarrow> (\<exists>h. conversationHistory svc = Some h \<and> h cid 10 = Inl x))"
proof -
  let ?a = "svc\<lparr>config := (config svc)\<lparr>cfg_ragService := Some rag\<rparr>\<rparr>"
  let ?b = "svc\<lparr>config := (config svc)\<lparr>cfg_ragService := Some rag'\<rparr>\<rparr>"
  let ?c = "svc\<lparr>config := (config svc)\<lparr>cfg_ragService := None\<rparr>\<rparr>"
  have ra: "rag_part rt ?a um = ([], [])" using assms(1) by (rule rag_part_throw)
  have rb: "rag_part rt ?b um = ([], [])" using assms(2) by (rule rag_part_empty)
  have rc: "rag_part rt ?c um = ([], [])" by (rule rag_part_none)
  have ab: "buildContext rt ?a cid pc um = buildContext rt ?b cid pc um"
    unfolding buildContext_unfold fixed_segments_def ra rb
    by (simp split: option.splits sum.splits)
  have ac: "buildContext rt ?a cid pc um = buildContext rt ?c cid pc um"
    unfolding buildContext_unfold fixed_segments_def ra rc
    by (simp split: option.splits sum.splits)
  have err: "\<forall>x. buildContext rt ?a cid pc um = Inl x
            \<longrightarrow> (\<exists>h. conversationHistory svc = Some h \<and> h cid 10 = Inl x)"
    using buildContext_error_is_history [of rt ?a cid pc um] by simp
  show ?thesis using ab ac ra err by blast
qed


theorem retrieval_failure_is_empty_result_witness:
  "throwing_rag (or_default (Some ''hi'') []) 3 (6 / 10) = Inl (new_Error ''Chroma is down'')
   \<and> empty_rag (or_default (Some ''hi'') []) 3 (6 / 10) = Inr []
   \<and> buildContext example_runtime
        ((rag_service empty_rag)
           \<lparr>config := (config (rag_service empty_rag))\<lparr>cfg_ragService := Some throwing_rag\<rparr>\<rparr>)
        ''c1'' None (Some ''hi'')
     = buildContext example_runtime
        ((rag_service empty_rag)
           \<lparr>config := (config (rag_service empty_rag))\<lparr>cfg_ragService := Some empty_rag\<rparr>\<rparr>)
        ''c1'' None (Some ''hi'')
   \<and> buildContext example_runtime
        ((rag_service empty_rag)
           \<lparr>config := (config (rag_service empty_rag))\<lparr>cfg_ragService := Some throwing_rag\<rparr>\<rparr>)
        ''c1'' None (Some ''hi'')
     = Inr ([\<lparr>role = ''system'', content = ''Be brief.''\<rparr>,
             \<lparr>role = ''user'', content = ''hi''\<rparr>], [])"
proof -
  have t: "throwing_rag (or_default (Some ''hi'') []) 3 (6 / 10)
           = Inl (new_Error ''Chroma is down'')"
    by (simp add: throwing_rag_def)
  have e: "empty_rag (or_default (Some ''hi'') []) 3 (6 / 10) = Inr []"
    by (simp add: empty_rag_def)
  have v: "buildContext example_runtime
        ((rag_service empty_rag)
           \<lparr>config := (config (rag_service empty_rag))\<lparr>cfg_ragService := Some throwing_rag\<rparr>\<rparr>)
        ''c1'' None (Some ''hi'')
     = Inr ([\<lparr>role = ''system'', content = ''Be brief.''\<rparr>,
             \<lparr>role = ''user'', content = ''hi''\<rparr>], [])"
    by (simp add: buildContext_def example_defs rag_part_def Let_def)
  show ?thesis
    using t e v
      retrieval_failure_is_empty_result [where rag = throwing_rag and rag' = empty_rag
        and um = "Some ''hi''" and rt = example_runtime
        and svc = "rag_service empty_rag" and cid = "''c1''" and pc = None, OF t e]
    by simp
qed

section \<open>The streaming adapter\<close>

text \<open>
  Claim C9. When the service is configured, the context is assembled and the backend
  stream ends normally, the text items of the run are the non-empty fragments of the
  stream in order if there is one, and otherwise the single fallback chunk with the fixed
  apology; they are followed by the \<open>sources\<close> item when there are citations, and the run
  ends normally. In both cases there is at least one text item and no text item is empty.
\<close>

theorem fallback_chunk_iff_no_content:
  assumes "isConfigured svc" and "openai svc = Some client"
    and "buildContext rt svc cid pc (Some um) = Inr (messages, ragSources)"
    and "client (completion_request svc messages) = Inr (chunks, None)"
  shows "streamChatCompletion rt svc cid um pc =
           (map Text
              (if nonempty_fragments chunks = []
               then [''I apologize, but I was unable to generate a response. Please try rephrasing your question.'']
               else nonempty_fragments chunks)
            @ (if ragSources = [] then [] else [Sources ragSources]),
            None)
       \<and> (if nonempty_fragments chunks = []
            then [''I apologize, but I was unable to generate a response. Please try rephrasing your question.'']
            else nonempty_fragments chunks) \<noteq> []
       \<and> [] \<notin> set (if nonempty_fragments chunks = []
                     then [''I apologize, but I was unable to generate a response. Please try rephrasing your question.'']
                     else nonempty_fragments chunks)"
proof -
  have run: "streamChatCompletion rt svc cid um pc =
           (map Text
              (if nonempty_fragments chunks = []
               then [''I apologize, but I was unable to generate a response. Please try rephrasing your question.'']
               else nonempty_fragments chunks)
            @ (if ragSources = [] then [] else [Sources ragSources]),
            None)"
    using assms
    by (simp add: streamChatCompletion_def stream_try_def consume_fragments Let_def
        fallback_message_def)
  have ne: "[] \<notin> set (nonempty_fragments chunks)"
    by (simp add: nonempty_fragments_def)
  show ?thesis using run ne by simp
qed

theorem fallback_chunk_iff_no_content_witness:
  "isConfigured silent_service
   \<and> openai silent_service = Some silent_client
   \<and> buildContext example_runtime silent_service ''c1'' None (Some ''hi'')
     = Inr ([\<lparr>role = ''system'', content = ''Be brief.''\<rparr>,
             \<lparr>role = ''user'', content = ''hi''\<rparr>], [])
   \<and> silent_client
        (completion_request silent_service
           [\<lparr>role = ''system'', content = ''Be brief.''\<rparr>,
            \<lparr>role = ''user'', content = ''hi''\<rparr>])
     = Inr ([None, Some []], None)
   \<and> nonempty_fragments [None, Some []] = []
   \<and> streamChatCompletion example_runtime silent_service ''c1'' ''hi'' None
     = ([Text ''I apologize, but I was unable to generate a response. Please try rephrasing your question.''],
        None)
   \<and> nonempty_fragments [None, Some ''Hel'', Some [], Some ''lo''] = [''Hel'', ''lo'']
   \<and> streamChatCompletion example_runtime
        (silent_service\<lparr>openai := Some hello_client\<rparr>) ''c1'' ''hi'' None
     = ([Text ''Hel'', Text ''lo''], None)"
proof -
  have c: "isConfigured silent_service"
    and o: "openai silent_service = Some silent_client"
    by (simp_all add: example_defs)
  have b: "buildContext example_runtime silent_service ''c1'' None (Some ''hi'')
     = Inr ([\<lparr>role = ''system'', content = ''Be brief.''\<rparr>,
             \<lparr>role = ''user'', content = ''hi''\<rparr>], [])"
    by (simp add: buildContext_def example_defs rag_part_def Let_def)
  have s: "silent_client
        (completion_request silent_service
           [\<lparr>role = ''system'', content = ''Be brief.''\<rparr>,
            \<lparr>role = ''user'', content = ''hi''\<rparr>])
     = Inr ([None, Some []], None)"
    by (simp add: silent_client_def)
  have c': "isConfigured (silent_service\<lparr>openai := Some hello_client\<rparr>)"
    and o': "openai (silent_service\<lparr>openai := Some hello_client\<rparr>) = Some hello_client"
    by (simp_all add: example_defs)
  have b': "buildContext example_runtime (silent_service\<lparr>openai := Some hello_client\<rparr>)
              ''c1'' None (Some ''hi'')
     = Inr ([\<lparr>role = ''system'', content = ''Be brief.''\<rparr>,
             \<lparr>role = ''user'', content = ''hi''\<rparr>], [])"
    by (simp add: buildContext_def example_defs rag_part_def Let_def)
  have s': "hello_client
        (completion_request (silent_service\<lparr>openai := Some hello_client\<rparr>)
           [\<lparr>role = ''system'', content = ''Be brief.''\<rparr>,
            \<lparr>role = ''user'', content = ''hi''\<rparr>])
     = Inr ([None, Some ''Hel'', Some [], Some ''lo''], None)"
    by (simp add: hello_client_def)
  have n: "nonempty_fragments [None, Some []] = []"
    and n': "nonempty_fragments [None, Some ''Hel'', Some [], Some ''lo''] = [''Hel'', ''lo'']"
    by (simp_all add: nonempty_fragments_def or_default_def)
  show ?thesis
    using c o b s n n' fallback_chunk_iff_no_content [OF c o b s]
      fallback_chunk_iff_no_content [OF c' o' b' s']
    by simp
qed

section \<open>The stream endpoint: order of events and errors\<close>

text \<open>
  Claim C1. In every run of the stream endpoint in which the channel is opened (the headers
  are flushed), the records written are any number of \<open>chunk\<close> records, then at most one
  \<open>sources\<close> record, then exactly one terminal record, \<open>done\<close> or \<open>error\<close>, and no
  record after it (\<open>event_order_ok\<close>, characterised by \<open>event_order_ok_iff\<close>); the last
  action of the run ends the response.
\<close>

theorem stream_event_order:
  assumes "FlushHeaders \<in> set (stream_endpoint rt storage svc mid ctx)"
  shows "event_order_ok (written (stream_endpoint rt storage svc mid ctx))
       \<and> last (stream_endpoint rt storage svc mid ctx) = End"
proof (cases "validate storage mid")
  case (Inl e)
  then show ?thesis using assms by (simp add: endpoint_cases)
next
  case (Inr v)
  show ?thesis
  proof (cases v)
    case (Rejected tr)
    then show ?thesis using assms Inr validate_rejected [of storage mid tr]
      by (auto simp: endpoint_cases)
  next
    case (Accepted cid um)
    let ?run = "streamChatCompletion rt svc cid um (Some (parse_context rt ctx))"
    have sh: "texts_then_sources (fst ?run)"
      by (rule stream_shape)
    have tr: "stream_endpoint rt storage svc mid ctx = sse_headers @ inner_block ?run"
      by (simp add: endpoint_cases Inr Accepted)
    have t: "terminal_only [case snd ?run of None \<Rightarrow> Done | Some e \<Rightarrow> ErrorEvent (message e)]"
      by (cases "snd ?run") simp_all
    have w: "written (sse_headers @ inner_block ?run)
             = map encode (fst ?run)
               @ [case snd ?run of None \<Rightarrow> Done | Some e \<Rightarrow> ErrorEvent (message e)]"
      using written_inner_block [of "fst ?run" "snd ?run"]
      by (simp add: written_append written_sse_headers)
    have nonempty: "inner_block ?run \<noteq> []"
      by (cases ?run, cases "snd ?run") (simp_all add: inner_block_def inner_try_def)
    show ?thesis
      unfolding tr w
      using order_ok_shape [OF sh t] last_inner_block [of ?run] nonempty
      by simp
  qed
qed

theorem stream_event_order_witness:
  "FlushHeaders \<in> set (stream_endpoint example_runtime (memory_storage example_memory)
                          (rag_service one_doc_rag) ''m2'' None)
   \<and> written (stream_endpoint example_runtime (memory_storage example_memory)
                (rag_service one_doc_rag) ''m2'' None)
     = [Chunk ''Hel'', Chunk ''lo'',
        SourcesEvent [\<lparr>src_type = ''knowledge-base'', src_title = ''Pricing'',
                       src_href = Some ''/pricing'', src_relevance = 8 / 10\<rparr>],
        Done]
   \<and> event_order_ok
        [Chunk ''Hel'', Chunk ''lo'',
         SourcesEvent [\<lparr>src_type = ''knowledge-base'', src_title = ''Pricing'',
                        src_href = Some ''/pricing'', src_relevance = 8 / 10\<rparr>],
         Done]
   \<and> last (stream_endpoint example_runtime (memory_storage example_memory)
             (rag_service one_doc_rag) ''m2'' None) = End"
proof -
  have f: "FlushHeaders \<in> set (stream_endpoint example_runtime (memory_storage example_memory)
                          (rag_service one_doc_rag) ''m2'' None)"
    by (simp add: one_doc_endpoint sse_headers_def)
  have w: "written (stream_endpoint example_runtime (memory_storage example_memory)
                (rag_service one_doc_rag) ''m2'' None)
     = [Chunk ''Hel'', Chunk ''lo'',
        SourcesEvent [\<lparr>src_type = ''knowledge-base'', src_title = ''Pricing'',
                       src_href = Some ''/pricing'', src_relevance = 8 / 10\<rparr>],
        Done]"
    by (simp add: one_doc_endpoint sse_headers_def)
  show ?thesis
    using f w stream_event_order [OF f] by simp
qed

text \<open>
  Claim C4. When an error is raised during a run of the stream endpoint, exactly one of the
  two error paths is taken. If the headers were not flushed, the run is the structured
  response with status 500 and nothing is written on the channel. If they were flushed, exactly
  one \<open>error\<close> record is written, with the message of the error, as the last write before
  the response is ended, and neither a \<open>done\<close> record nor a JSON response occurs. When no
  error is raised, neither path is taken.
\<close>

theorem exactly_one_error_path:
  fixes rt :: "'j runtime" and storage :: ConversationStorage and svc :: AIService
    and mid :: string and ctx :: "string option"
  defines "tr \<equiv> stream_endpoint rt storage svc mid ctx"
  shows "case raised_error rt storage svc mid ctx of
           None \<Rightarrow> \<not> json_error_path tr \<and> \<not> stream_error_path tr
         | Some e \<Rightarrow>
             (json_error_path tr \<noteq> stream_error_path tr)
             \<and> (json_error_path tr \<longleftrightarrow> FlushHeaders \<notin> set tr)
             \<and> (json_error_path tr \<longrightarrow>
                  tr = [Status 500, Json ''Failed to stream response''] \<and> written tr = [])
             \<and> (stream_error_path tr \<longrightarrow>
                  error_events tr = [ErrorEvent (message e)]
                  \<and> Done \<notin> set (written tr)
                  \<and> (\<exists>pre. tr = pre @ [Write (ErrorEvent (message e)), End]))"
proof (cases "validate storage mid")
  case (Inl e)
  then have "tr = [Status 500, Json ''Failed to stream response'']"
    by (simp add: tr_def endpoint_cases)
  then show ?thesis using Inl
    by (simp add: raised_error_def json_error_path_def stream_error_path_def error_events_def)
next
  case (Inr v)
  show ?thesis
  proof (cases v)
    case (Rejected r)
    then have "tr = r" by (simp add: tr_def endpoint_cases Inr)
    then show ?thesis using Inr Rejected validate_rejected [of storage mid r]
      by (auto simp: raised_error_def json_error_path_def stream_error_path_def
          error_events_def)
  next
    case (Accepted cid um)
    let ?run = "streamChatCompletion rt svc cid um (Some (parse_context rt ctx))"
    have tr: "tr = sse_headers @ inner_block (fst ?run, snd ?run)"
      by (simp add: tr_def endpoint_cases Inr Accepted)
    have r: "raised_error rt storage svc mid ctx = snd ?run"
      by (simp add: raised_error_def Inr Accepted)
    show ?thesis
    proof (cases "snd ?run")
      case None
      then show ?thesis unfolding r tr
        by (simp add: inner_block_ok json_error_path_def stream_error_path_def
            error_events_def written_append written_drain written_sse_headers
            encode_not_error no_json_in_drain sse_headers_def is_error_event_def)
    next
      case (Some e)
      have pre: "\<exists>pre. sse_headers @ drain (fst ?run) @ [Pull, Write (ErrorEvent (message e)), End]
                   = pre @ [Write (ErrorEvent (message e)), End]"
        by (rule exI [of _ "sse_headers @ drain (fst ?run) @ [Pull]"]) simp
      show ?thesis unfolding r tr Some
        using pre
        by (simp add: inner_block_error json_error_path_def stream_error_path_def
            error_events_def written_append written_drain written_sse_headers
            encode_not_error encode_not_done no_json_in_drain sse_headers_def
            is_error_event_def)
    qed
  qed
qed

theorem exactly_one_error_path_witness:
  "raised_error example_runtime broken_storage hello_service ''m2'' None
     = Some (new_Error ''connection refused'')
   \<and> stream_endpoint example_runtime broken_storage hello_service ''m2'' None
     = [Status 500, Json ''Failed to stream response'']
   \<and> json_error_path (stream_endpoint example_runtime broken_storage hello_service ''m2'' None)
   \<and> \<not> stream_error_path
          (stream_endpoint example_runtime broken_storage hello_service ''m2'' None)
   \<and> raised_error example_runtime (memory_storage example_memory) unauthorized_service
        ''m2'' None
     = Some (new_Error auth_message)
   \<and> stream_endpoint example_runtime (memory_storage example_memory) unauthorized_service
        ''m2'' None
     = sse_headers @ [Pull, Write (ErrorEvent (Some auth_message)), End]
   \<and> stream_error_path
        (stream_endpoint example_runtime (memory_storage example_memory) unauthorized_service
           ''m2'' None)
   \<and> \<not> json_error_path
          (stream_endpoint example_runtime (memory_storage example_memory)
             unauthorized_service ''m2'' None)"
proof -
  have r1: "raised_error example_runtime broken_storage hello_service ''m2'' None
     = Some (new_Error ''connection refused'')"
    by (simp add: raised_error_def validate_broken)
  have j1: "json_error_path
              (stream_endpoint example_runtime broken_storage hello_service ''m2'' None)"
    by (simp add: broken_endpoint json_error_path_def)
  have r2: "raised_error example_runtime (memory_storage example_memory) unauthorized_service
        ''m2'' None = Some (new_Error auth_message)"
    by (simp add: raised_error_def validate_example unauthorized_run)
  have s2: "stream_error_path
        (stream_endpoint example_runtime (memory_storage example_memory) unauthorized_service
           ''m2'' None)"
    by (simp add: unauthorized_endpoint stream_error_path_def error_events_def
        is_error_event_def sse_headers_def)
  have x1: "json_error_path
              (stream_endpoint example_runtime broken_storage hello_service ''m2'' None)
            \<noteq> stream_error_path
              (stream_endpoint example_runtime broken_storage hello_service ''m2'' None)"
    using exactly_one_error_path [where rt = example_runtime and storage = broken_storage
        and svc = hello_service and mid = "''m2''" and ctx = None]
    unfolding r1 by simp
  have x2: "json_error_path
              (stream_endpoint example_runtime (memory_storage example_memory)
                 unauthorized_service ''m2'' None)
            \<noteq> stream_error_path
              (stream_endpoint example_runtime (memory_storage example_memory)
                 unauthorized_service ''m2'' None)"
    using exactly_one_error_path [where rt = example_runtime
        and storage = "memory_storage example_memory"
        and svc = unauthorized_service and mid = "''m2''" and ctx = None]
    unfolding r2 by simp
  have n1: "\<not> stream_error_path
          (stream_endpoint example_runtime broken_storage hello_service ''m2'' None)"
    using x1 j1 by blast
  have n2: "\<not> json_error_path
          (stream_endpoint example_runtime (memory_storage example_memory)
             unauthorized_service ''m2'' None)"
    using x2 s2 by blast
  show ?thesis
    using r1 j1 n1 r2 s2 n2 broken_endpoint unauthorized_endpoint by blast
qed

text \<open>
  Claim C5. When the backend fails, at the call or in the middle of the stream, the
  generator yields the fragments streamed so far and throws a new error that carries a
  message only (no status, no code). The message is chosen by the status and the code of
  the error caught, the status first: status 429 gives the rate-limit message, 401 the
  authentication message, a status from 500 on the unavailable message; when the status
  selects none of them, the code \<open>insufficient_quota\<close> gives the quota message,
  \<open>ETIMEDOUT\<close> or \<open>ECONNABORTED\<close> the timeout message, and anything else the
  catch-all message around the message caught (or \<open>Unknown error\<close>). The endpoint then
  writes one \<open>chunk\<close> record per fragment and exactly one \<open>error\<close> record with that
  message, no \<open>done\<close> record, and ends the response.
\<close>

theorem backend_failure_normalized:
  assumes "validate storage mid = Inr (Accepted cid um)"
    and "isConfigured svc" and "openai svc = Some client"
    and "buildContext rt svc cid (Some (parse_context rt ctx)) (Some um) = Inr (msgs, srcs)"
    and "backend_failure (client (completion_request svc msgs)) = Some (frags, cause)"
  shows "streamChatCompletion rt svc cid um (Some (parse_context rt ctx))
           = (map Text frags, Some (normalize_error cause))
       \<and> written (stream_endpoint rt storage svc mid ctx)
           = map Chunk frags @ [ErrorEvent (message (normalize_error cause))]
       \<and> last (stream_endpoint rt storage svc mid ctx) = End
       \<and> status (normalize_error cause) = None \<and> code (normalize_error cause) = None
       \<and> (\<exists>m. message (normalize_error cause) = Some m
              \<and> (m \<in> set fixed_messages \<or> m = unknown_message (message cause)))
       \<and> (status cause = Some 401 \<longrightarrow> message (normalize_error cause) = Some auth_message)
       \<and> (status cause = Some 429 \<longrightarrow>
            message (normalize_error cause)
            = Some ''I'm receiving too many requests right now. Please wait a moment and try again.'')
       \<and> (status cause = Some 401 \<longrightarrow>
            message (normalize_error cause)
            = Some ''API authentication failed. Please contact your administrator.'')
       \<and> ((\<exists>s. status cause = Some s \<and> 500 \<le> s) \<longrightarrow>
            message (normalize_error cause)
            = Some ''The AI service is temporarily unavailable. Please try again in a few moments.'')
       \<and> (status_selects_nothing cause \<and> code cause = Some ''insufficient_quota'' \<longrightarrow>
            message (normalize_error cause)
            = Some ''API usage limit reached. Please contact your administrator.'')
       \<and> (status_selects_nothing cause
            \<and> (code cause = Some ''ETIMEDOUT'' \<or> code cause = Some ''ECONNABORTED'') \<longrightarrow>
            message (normalize_error cause)
            = Some ''Request timed out. Please check your connection and try again.'')
       \<and> (status_selects_nothing cause \<and> code cause \<noteq> Some ''insufficient_quota''
            \<and> code cause \<noteq> Some ''ETIMEDOUT'' \<and> code cause \<noteq> Some ''ECONNABORTED'' \<longrightarrow>
            message (normalize_error cause)
            = Some (''Unable to process your request: '' @ raw_or_unknown (message cause)
                    @ ''. Please try again.''))"
proof -
  let ?run = "streamChatCompletion rt svc cid um (Some (parse_context rt ctx))"
  have run: "?run = (map Text frags, Some (normalize_error cause))"
    using assms(2-5) by (rule stream_backend_failure)
  have tr: "stream_endpoint rt storage svc mid ctx
            = sse_headers @ drain (map Text frags)
              @ [Pull, Write (ErrorEvent (message (normalize_error cause))), End]"
    by (simp add: endpoint_cases assms(1) run inner_block_error)
  have w: "written (stream_endpoint rt storage svc mid ctx)
           = map Chunk frags @ [ErrorEvent (message (normalize_error cause))]"
    by (simp add: tr written_append written_drain written_sse_headers comp_def)
  have l: "last (stream_endpoint rt storage svc mid ctx) = End"
    by (simp add: tr)
  have a: "status cause = Some 401 \<longrightarrow> message (normalize_error cause) = Some auth_message"
    by (simp add: normalize_error_401 new_Error_def)
  have first: "streamChatCompletion rt svc cid um (Some (parse_context rt ctx))
           = (map Text frags, Some (normalize_error cause))
       \<and> written (stream_endpoint rt storage svc mid ctx)
           = map Chunk frags @ [ErrorEvent (message (normalize_error cause))]
       \<and> last (stream_endpoint rt storage svc mid ctx) = End
       \<and> status (normalize_error cause) = None \<and> code (normalize_error cause) = None
       \<and> (\<exists>m. message (normalize_error cause) = Some m
              \<and> (m \<in> set fixed_messages \<or> m = unknown_message (message cause)))
       \<and> (status cause = Some 401 \<longrightarrow> message (normalize_error cause) = Some auth_message)"
    using run w l a normalize_error_taxonomy [of cause] by blast
  show ?thesis
    using first normalize_error_mapping [of cause] by (intro conjI) (elim conjE, assumption)+
qed

theorem backend_failure_normalized_witness:
  "validate (memory_storage example_memory) ''m2'' = Inr (Accepted ''c1'' ''hi'')
   \<and> isConfigured unauthorized_service
   \<and> openai unauthorized_service = Some unauthorized_client
   \<and> streamChatCompletion example_runtime unauthorized_service ''c1'' ''hi''
        (Some (parse_context example_runtime None))
     = ([], Some (new_Error ''API authentication failed. Please contact your administrator.''))
   \<and> written (stream_endpoint example_runtime (memory_storage example_memory)
        (unauthorized_service) ''m2'' None)
     = [ErrorEvent (Some ''API authentication failed. Please contact your administrator.'')]
   \<and> last (stream_endpoint example_runtime (memory_storage example_memory)
             unauthorized_service ''m2'' None) = End
   \<and> written (stream_endpoint example_runtime (memory_storage example_memory)
        (client_service (failing_client
           \<lparr>status = Some 429, code = Some ''rate_limit_exceeded'', message = Some ''Slow down''\<rparr>)) ''m2'' None)
     = [ErrorEvent (Some ''I'm receiving too many requests right now. Please wait a moment and try again.'')]
   \<and> written (stream_endpoint example_runtime (memory_storage example_memory)
        (client_service (failing_client
           \<lparr>status = Some 503, code = Some ''insufficient_quota'', message = Some ''Overloaded''\<rparr>)) ''m2'' None)
     = [ErrorEvent (Some ''The AI service is temporarily unavailable. Please try again in a few moments.'')]
   \<and> written (stream_endpoint example_runtime (memory_storage example_memory)
        (client_service (failing_client
           \<lparr>status = None, code = Some ''insufficient_quota'', message = None\<rparr>)) ''m2'' None)
     = [ErrorEvent (Some ''API usage limit reached. Please contact your administrator.'')]
   \<and> written (stream_endpoint example_runtime (memory_storage example_memory)
        (client_service (interrupted_client
           \<lparr>status = None, code = Some ''ETIMEDOUT'', message = Some ''socket hang up''\<rparr>)) ''m2'' None)
     = [Chunk ''Hel'',
        ErrorEvent (Some ''Request timed out. Please check your connection and try again.'')]
   \<and> written (stream_endpoint example_runtime (memory_storage example_memory)
        (client_service (failing_client
           \<lparr>status = Some 400, code = None, message = Some ''Bad request''\<rparr>)) ''m2'' None)
     = [ErrorEvent (Some ''Unable to process your request: Bad request. Please try again.'')]
   \<and> written (stream_endpoint example_runtime (memory_storage example_memory)
        (client_service (failing_client
           \<lparr>status = None, code = None, message = Some []\<rparr>)) ''m2'' None)
     = [ErrorEvent (Some ''Unable to process your request: Unknown error. Please try again.'')]"
proof -
  have c: "isConfigured unauthorized_service"
    and o: "openai unauthorized_service = Some unauthorized_client"
    by (simp_all add: example_defs run_defs)
  have u: "streamChatCompletion example_runtime unauthorized_service ''c1'' ''hi''
        (Some (parse_context example_runtime None))
     = ([], Some (new_Error ''API authentication failed. Please contact your administrator.''))
     \<and> written (stream_endpoint example_runtime (memory_storage example_memory)
        (unauthorized_service) ''m2'' None)
     = [ErrorEvent (Some ''API authentication failed. Please contact your administrator.'')]
     \<and> last (stream_endpoint example_runtime (memory_storage example_memory)
             unauthorized_service ''m2'' None) = End"
    using backend_failure_normalized [OF validate_example c o unauthorized_context
        unauthorized_failure]
    by (simp add: normalize_error_def new_Error_def auth_message_def)
  have r429: "written (stream_endpoint example_runtime (memory_storage example_memory)
        (client_service (failing_client
           \<lparr>status = Some 429, code = Some ''rate_limit_exceeded'', message = Some ''Slow down''\<rparr>)) ''m2'' None)
     = [ErrorEvent (Some ''I'm receiving too many requests right now. Please wait a moment and try again.'')]"
    using backend_failure_normalized [OF validate_example
        client_service_configured [of "failing_client \<lparr>status = Some 429, code = Some ''rate_limit_exceeded'', message = Some ''Slow down''\<rparr>"]
        client_service_context [of "failing_client \<lparr>status = Some 429, code = Some ''rate_limit_exceeded'', message = Some ''Slow down''\<rparr>"] failing_client_failure]
    by (simp add: status_selects_nothing_def raw_or_unknown_def)
  have r503: "written (stream_endpoint example_runtime (memory_storage example_memory)
        (client_service (failing_client
           \<lparr>status = Some 503, code = Some ''insufficient_quota'', message = Some ''Overloaded''\<rparr>)) ''m2'' None)
     = [ErrorEvent (Some ''The AI service is temporarily unavailable. Please try again in a few moments.'')]"
    using backend_failure_normalized [OF validate_example
        client_service_configured [of "failing_client \<lparr>status = Some 503, code = Some ''insufficient_quota'', message = Some ''Overloaded''\<rparr>"]
        client_service_context [of "failing_client \<lparr>status = Some 503, code = Some ''insufficient_quota'', message = Some ''Overloaded''\<rparr>"] failing_client_failure]
    by (simp add: status_selects_nothing_def raw_or_unknown_def)
  have rquota: "written (stream_endpoint example_runtime (memory_storage example_memory)
        (client_service (failing_client
           \<lparr>status = None, code = Some ''insufficient_quota'', message = None\<rparr>)) ''m2'' None)
     = [ErrorEvent (Some ''API usage limit reached. Please contact your administrator.'')]"
    using backend_failure_normalized [OF validate_example
        client_service_configured [of "failing_client \<lparr>status = None, code = Some ''insufficient_quota'', message = None\<rparr>"]
        client_service_context [of "failing_client \<lparr>status = None, code = Some ''insufficient_quota'', message = None\<rparr>"] failing_client_failure]
    by (simp add: status_selects_nothing_def raw_or_unknown_def)
  have rtime: "written (stream_endpoint example_runtime (memory_storage example_memory)
        (client_service (interrupted_client
           \<lparr>status = None, code = Some ''ETIMEDOUT'', message = Some ''socket hang up''\<rparr>)) ''m2'' None)
     = [Chunk ''Hel'',
        ErrorEvent (Some ''Request timed out. Please check your connection and try again.'')]"
    using backend_failure_normalized [OF validate_example
        client_service_configured [of "interrupted_client \<lparr>status = None, code = Some ''ETIMEDOUT'', message = Some ''socket hang up''\<rparr>"]
        client_service_context [of "interrupted_client \<lparr>status = None, code = Some ''ETIMEDOUT'', message = Some ''socket hang up''\<rparr>"] interrupted_client_failure]
    by (simp add: status_selects_nothing_def raw_or_unknown_def)
  have rbad: "written (stream_endpoint example_runtime (memory_storage example_memory)
        (client_service (failing_client
           \<lparr>status = Some 400, code = None, message = Some ''Bad request''\<rparr>)) ''m2'' None)
     = [ErrorEvent (Some ''Unable to process your request: Bad request. Please try again.'')]"
    using backend_failure_normalized [OF validate_example
        client_service_configured [of "failing_client \<lparr>status = Some 400, code = None, message = Some ''Bad request''\<rparr>"]
        client_service_context [of "failing_client \<lparr>status = Some 400, code = None, message = Some ''Bad request''\<rparr>"] failing_client_failure]
    by (simp add: status_selects_nothing_def raw_or_unknown_def)
  have rnone: "written (stream_endpoint example_runtime (memory_storage example_memory)
        (client_service (failing_client
           \<lparr>status = None, code = None, message = Some []\<rparr>)) ''m2'' None)
     = [ErrorEvent (Some ''Unable to process your request: Unknown error. Please try again.'')]"
    using backend_failure_normalized [OF validate_example
        client_service_configured [of "failing_client \<lparr>status = None, code = None, message = Some []\<rparr>"]
        client_service_context [of "failing_client \<lparr>status = None, code = None, message = Some []\<rparr>"] failing_client_failure]
    by (simp add: status_selects_nothing_def raw_or_unknown_def)
  show ?thesis
    using validate_example c o u r429 r503 rquota rtime rbad rnone by simp
qed

text \<open>
  Claim C8, as amended. The handler does not observe a disconnect of the client. After
  the client has received \<open>k\<close> records of a stream of \<open>n\<close> items (\<open>0 < k \<le> n\<close>), the
  handler still pulls \<open>n - k + 1\<close> times from the generator, still writes one record for
  each remaining item and the terminal record, and then ends the response: its actions after
  the \<open>k\<close>-th write are those of a run with a client that stays connected.
\<close>

theorem disconnect_is_not_observed:
  assumes "validate storage mid = Inr (Accepted cid um)"
    and "streamChatCompletion rt svc cid um (Some (parse_context rt ctx)) = (items, out)"
    and "0 < k" and "k \<le> length items"
  shows "after_writes k (stream_endpoint rt storage svc mid ctx)
           = drain (drop k items)
             @ [Pull, Write (case out of None \<Rightarrow> Done | Some e \<Rightarrow> ErrorEvent (message e)), End]
       \<and> count_list (after_writes k (stream_endpoint rt storage svc mid ctx)) Pull
           = length items - k + 1
       \<and> written (after_writes k (stream_endpoint rt storage svc mid ctx))
           = drop k (written (stream_endpoint rt storage svc mid ctx))
       \<and> written (after_writes k (stream_endpoint rt storage svc mid ctx)) \<noteq> []"
proof -
  let ?t = "case out of None \<Rightarrow> Done | Some e \<Rightarrow> ErrorEvent (message e)"
  have ib: "inner_block (items, out) = drain items @ [Pull, Write ?t, End]"
    by (cases out) (simp_all add: inner_block_ok inner_block_error)
  have tr: "stream_endpoint rt storage svc mid ctx
            = sse_headers @ drain items @ [Pull, Write ?t, End]"
    by (simp add: endpoint_cases assms(1,2) ib)
  have a: "after_writes k (stream_endpoint rt storage svc mid ctx)
           = drain (drop k items) @ [Pull, Write ?t, End]"
    by (simp add: tr after_writes_headers [OF assms(3)] after_writes_drain [OF assms(4)])
  have c: "count_list (drain (drop k items) @ [Pull, Write ?t, End]) Pull
           = length items - k + 1"
    by (simp add: count_pull_drain)
  have w: "written (drain (drop k items) @ [Pull, Write ?t, End])
           = drop k (written (sse_headers @ drain items @ [Pull, Write ?t, End]))"
    using assms(4)
    by (simp add: written_append written_drain written_sse_headers drop_map)
  have n: "written (drain (drop k items) @ [Pull, Write ?t, End]) \<noteq> []"
    by (simp add: written_append)
  show ?thesis
    unfolding a using c w n by (simp add: tr)
qed

theorem disconnect_is_not_observed_witness:
  "validate (memory_storage example_memory) ''m2'' = Inr (Accepted ''c1'' ''hi'')
   \<and> streamChatCompletion example_runtime hello_service ''c1'' ''hi''
        (Some (parse_context example_runtime None))
     = ([Text ''Hel'', Text ''lo''], None)
   \<and> (0::nat) < 1 \<and> (1::nat) \<le> length [Text ''Hel'', Text ''lo'']
   \<and> after_writes 1
        (stream_endpoint example_runtime (memory_storage example_memory) hello_service
           ''m2'' None)
     = [Pull, Write (Chunk ''lo''), Pull, Write Done, End]
   \<and> count_list
        (after_writes 1
           (stream_endpoint example_runtime (memory_storage example_memory) hello_service
              ''m2'' None)) Pull = 2"
proof -
  have r: "streamChatCompletion example_runtime hello_service ''c1'' ''hi''
        (Some (parse_context example_runtime None))
     = ([Text ''Hel'', Text ''lo''], None)"
    by (simp add: streamChatCompletion_def stream_try_def buildContext_def example_defs
        run_defs rag_part_def Object_keys_def present_def Let_def)
  have k: "(0::nat) < 1" and l: "(1::nat) \<le> length [Text ''Hel'', Text ''lo'']"
    by simp_all
  show ?thesis
    using r k l validate_example disconnect_is_not_observed [OF validate_example r k l]
    by simp
qed

text \<open>
  The claim as stated fails: in demo mode, after the client has received two chunks, the
  handler pulls seven more times and writes the six remaining chunks and the \<open>done\<close> record.
\<close>

theorem disconnect_stops_stream_counterexample:
  "after_writes 2
     (stream_endpoint example_runtime (memory_storage example_memory) demo_service ''m2'' None)
   = [Pull, Write (Chunk ''I can help you with that. ''),
      Pull, Write (Chunk ''\<newline>\<newline>Here are some key points:\<newline>''),
      Pull, Write (Chunk ''1. This is a mock response for demonstration\<newline>''),
      Pull, Write (Chunk ''2. Configure OpenAI API key for real responses\<newline>''),
      Pull, Write (Chunk ''3. I'm ready to help once configured\<newline>\<newline>''),
      Pull, Write (Chunk ''Would you like more information?''),
      Pull, Write Done, End]"
  by (simp add: demo_endpoint sse_headers_def mockResponses_def numeral_2_eq_2)

section \<open>Demo mode\<close>

text \<open>
  Claim C10. When the service is not configured (no backend client), the run of
  \<open>streamChatCompletion\<close> is the fixed sequence of the eight mock fragments followed by a
  normal end, whatever the runtime, the conversation id, the user message, the page context
  and the rest of the service (history, persona, retrieval) are: two unconfigured runs on
  arbitrary inputs are equal, and no \<open>sources\<close> item is among the items.
\<close>

theorem demo_mode_stream_is_constant:
  assumes "\<not> isConfigured svc \<or> openai svc = None"
    and "\<not> isConfigured svc' \<or> openai svc' = None"
  shows "streamChatCompletion rt svc cid um pc = (map Text mockResponses, None)
       \<and> streamChatCompletion rt svc cid um pc = streamChatCompletion rt' svc' cid' um' pc'"
  using assms by (auto simp: streamChatCompletion_def stream_try_def mock_run)

theorem demo_mode_stream_is_constant_witness:
  "\<not> isConfigured (new_AIService (\<lambda>k. hello_client) no_options None)
   \<and> openai
        (new_AIService (\<lambda>k. hello_client)
           (no_options\<lparr>openaiApiKey := Some ''sk-your-api-key-here'',
                        systemPrompt := Some ''Be brief.''\<rparr>)
           (Some (memory_history example_memory))) = None
   \<and> streamChatCompletion example_runtime (new_AIService (\<lambda>k. hello_client) no_options None)
        ''c1'' ''hi'' None
      = (map Text mockResponses, None)
   \<and> streamChatCompletion example_runtime (new_AIService (\<lambda>k. hello_client) no_options None)
        ''c1'' ''hi'' None
      = streamChatCompletion example_runtime
          (new_AIService (\<lambda>k. hello_client)
             (no_options\<lparr>openaiApiKey := Some ''sk-your-api-key-here'',
                          systemPrompt := Some ''Be brief.''\<rparr>)
             (Some (memory_history example_memory)))
          ''c2'' ''what is on this page?''
          (Some (empty_PageContext\<lparr>currentPage := Some ''/billing''\<rparr>))"
proof -
  have a: "\<not> isConfigured (new_AIService (\<lambda>k. hello_client) no_options None)"
    by (simp add: new_AIService_def no_options_def)
  have b: "openai
        (new_AIService (\<lambda>k. hello_client)
           (no_options\<lparr>openaiApiKey := Some ''sk-your-api-key-here'',
                        systemPrompt := Some ''Be brief.''\<rparr>)
           (Some (memory_history example_memory))) = None"
    by (simp add: new_AIService_def no_options_def)
  show ?thesis
    using a b demo_mode_stream_is_constant [OF disjI1 [OF a] disjI2 [OF b]] by blast
qed

end
